theory Spec2Isabelle
  imports Main "HOL-Library.Sublist"
begin

section \<open>Python values, dictionaries and exceptions\<close>

text \<open>
  The program under study is \<^verbatim>\<open>src/api.py\<close>, a FastAPI service that scrapes job
  listings from LinkedIn (plain HTTP through \<^verbatim>\<open>requests\<close>) and from Indeed (a browser
  driven through Selenium). Dictionaries are association lists in insertion order, as
  Python dictionaries are; Python strings are byte strings (their UTF-8 encoding), on
  which splitting, joining, searching and the replacement of a space are what they are
  on the text. \<^verbatim>\<open>str.lower\<close> and \<^verbatim>\<open>str.strip\<close> follow tables of Unicode: they are not
  defined here but taken from the environment of a run, as functions on strings.
  Sleeps, the rotated user agent and the request timeout have no effect on the values
  computed and are left out.
\<close>

datatype pyval = PNone | PStr string | PBool bool | PInt int

type_synonym pydict = "(string \<times> pyval) list"

text \<open>\<^verbatim>\<open>d[k] = v\<close>: an existing key keeps its position, a new key goes last.\<close>

primrec dict_set :: "string \<Rightarrow> pyval \<Rightarrow> pydict \<Rightarrow> pydict" where
  "dict_set k v [] = [(k, v)]"
| "dict_set k v (p # ps) = (if fst p = k then (k, v) # ps else p # dict_set k v ps)"

text \<open>\<^verbatim>\<open>d.update(other)\<close>, also \<^verbatim>\<open>{**d, **other}\<close>.\<close>

fun dict_update :: "pydict \<Rightarrow> pydict \<Rightarrow> pydict" where
  "dict_update d [] = d"
| "dict_update d ((k, v) # kvs) = dict_update (dict_set k v d) kvs"

definition dict_get :: "pydict \<Rightarrow> string \<Rightarrow> pyval option" where
  "dict_get d k = map_of d k"

definition dict_keys :: "pydict \<Rightarrow> string list" where
  "dict_keys d = map fst d"

text \<open>
  Exceptions. \<open>LibraryError\<close> stands for whatever an external library call raises
  (a timeout of \<^verbatim>\<open>requests\<close>, a Selenium error). The detail of an \<^verbatim>\<open>HTTPException\<close> is
  kept symbolic: a literal, \<^verbatim>\<open>str(e)\<close>, or an f-string prefix followed by \<^verbatim>\<open>str(e)\<close>.
\<close>

datatype exn =
    KeyError string
  | IndexError
  | AttributeError
  | NameError string
  | LibraryError string
  | HTTPException nat detail
and detail =
    Literal string
  | StrOf exn
  | Prefixed string exn

section \<open>String functions of Python used by the program\<close>

text \<open>\<^verbatim>\<open>str(n)\<close> for a natural number and for an integer.\<close>

fun str_nat :: "nat \<Rightarrow> string" where
  "str_nat n =
     (if n < 10 then [''0123456789'' ! n]
      else str_nat (n div 10) @ [''0123456789'' ! (n mod 10)])"

declare str_nat.simps [simp del]

definition str_int :: "int \<Rightarrow> string" where
  "str_int i = (if i < 0 then CHR ''-'' # str_nat (nat (- i)) else str_nat (nat i))"

text \<open>\<^verbatim>\<open>s.split(sep)\<close> for a non-empty separator: left to right, without overlaps.\<close>

function split_from :: "string \<Rightarrow> string \<Rightarrow> string \<Rightarrow> string list" where
  "split_from sep acc [] = [acc]"
| "split_from sep acc (c # cs) =
     (if sep \<noteq> [] \<and> take (length sep) (c # cs) = sep
      then acc # split_from sep [] (drop (length sep - 1) cs)
      else split_from sep (acc @ [c]) cs)"
  by pat_completeness auto
termination
  by (relation "measure (\<lambda>(sep, acc, s). length s)") auto

definition py_split :: "string \<Rightarrow> string \<Rightarrow> string list" where
  "py_split sep s = split_from sep [] s"

text \<open>\<^verbatim>\<open>sep.join(xs)\<close>.\<close>

fun py_join :: "string \<Rightarrow> string list \<Rightarrow> string" where
  "py_join sep [] = []"
| "py_join sep [x] = x"
| "py_join sep (x # y # ys) = x @ sep @ py_join sep (y # ys)"

text \<open>\<^verbatim>\<open>s.replace(' ', '_')\<close>.\<close>

definition replace_char :: "char \<Rightarrow> char \<Rightarrow> string \<Rightarrow> string" where
  "replace_char a b s = map (\<lambda>c. if c = a then b else c) s"

section \<open>Documents as BeautifulSoup sees them\<close>

text \<open>
  A tag is what the program reads from it: its attributes, \<^verbatim>\<open>tag.text\<close> and
  \<^verbatim>\<open>tag.get_text(strip=True)\<close>. A parsed document is the record of the answers to the
  queries the program makes on it (\<^verbatim>\<open>find\<close> gives a tag or \<^verbatim>\<open>None\<close>, \<^verbatim>\<open>find_all\<close> a
  list).
\<close>

record tag =
  tag_attrs :: "(string \<times> string) list"
  tag_text :: string
  tag_stripped :: string

text \<open>\<^verbatim>\<open>tag.get(name, default)\<close> and \<^verbatim>\<open>tag[name]\<close>.\<close>

definition attr_get :: "tag \<Rightarrow> string \<Rightarrow> string \<Rightarrow> string" where
  "attr_get t name dflt = (case map_of (tag_attrs t) name of None \<Rightarrow> dflt | Some v \<Rightarrow> v)"

definition attr_index :: "tag \<Rightarrow> string \<Rightarrow> exn + string" where
  "attr_index t name =
     (case map_of (tag_attrs t) name of None \<Rightarrow> Inl (KeyError name) | Some v \<Rightarrow> Inr v)"

text \<open>
  \<^verbatim>\<open>li.description__job-criteria-item\<close>: its first \<^verbatim>\<open>h3\<close> and first \<^verbatim>\<open>span\<close>;
  a \<^verbatim>\<open>li\<close> of the search page: its first \<^verbatim>\<open>div.base-card\<close>.
\<close>

record criteria_item =
  item_h3 :: "tag option"
  item_span :: "tag option"

record listing_item =
  base_card :: "tag option"

record linkedin_soup =
  list_items :: "listing_item list"
  top_card_title :: "tag option"
  org_name_link :: "tag option"
  flavor_bullet :: "tag option"
  posted_time_ago :: "tag option"
  num_applicants :: "tag option"
  description_markup :: "string list option"
  job_criteria_items :: "criteria_item list"

record http_response =
  status_code :: nat
  body :: linkedin_soup

section \<open>The world of a LinkedIn run\<close>

text \<open>
  \<^verbatim>\<open>requests.get(url, params=...)\<close> either raises or returns a response; what it does
  for the \<open>n\<close>-th request of the run is given by the environment (\<open>reply\<close>), which also
  holds Python's \<^verbatim>\<open>str.lower\<close>. The world records the requests sent so far and the log.
\<close>

record linkedin_env =
  reply :: "nat \<Rightarrow> string \<Rightarrow> pydict \<Rightarrow> exn + http_response"
  str_lower :: "string \<Rightarrow> string"

datatype level = INFO | WARNING | ERROR

datatype log_msg =
    FailedToFetchJob string nat
  | ErrorScrapingJob string exn
  | FailedToFetchJobs nat
  | ErrorDuringJobScraping exn
  | SuccessfullyScraped string
  | FailedAfterAttempts string nat
  | LinkedInScrapingFailed exn
  | IndeedScrapingFailed exn

record world =
  sent :: "(string \<times> pydict) list"
  logged :: "(level \<times> log_msg) list"

definition log_event :: "level \<Rightarrow> log_msg \<Rightarrow> world \<Rightarrow> world" where
  "log_event l m w = w\<lparr>logged := logged w @ [(l, m)]\<rparr>"

definition requests_get :: "linkedin_env \<Rightarrow> string \<Rightarrow> pydict \<Rightarrow> world \<Rightarrow> (exn + http_response) \<times> world" where
  "requests_get env url params w =
     (reply env (length (sent w)) url params, w\<lparr>sent := sent w @ [(url, params)]\<rparr>)"

section \<open>LinkedIn: the detail page (\<^verbatim>\<open>scrape_job_page\<close>, \<^verbatim>\<open>get_job_criteria\<close>)\<close>

definition text_or_none :: "tag option \<Rightarrow> pyval" where
  "text_or_none t = (case t of None \<Rightarrow> PNone | Some x \<Rightarrow> PStr (tag_stripped x))"

text \<open>
  One criteria item: \<^verbatim>\<open>item.find('h3')\<close> or \<^verbatim>\<open>item.find('span')\<close> being \<^verbatim>\<open>None\<close> raises
  \<^verbatim>\<open>AttributeError\<close>, which the loop catches (\<^verbatim>\<open>continue\<close>). Nothing else raises there.
\<close>

definition criteria_entry :: "(string \<Rightarrow> string) \<Rightarrow> criteria_item \<Rightarrow> exn + (string \<times> pyval)" where
  "criteria_entry lower item =
     (case item_h3 item of
        None \<Rightarrow> Inl AttributeError
      | Some h \<Rightarrow>
          (case item_span item of
             None \<Rightarrow> Inl AttributeError
           | Some s \<Rightarrow>
               Inr (lower (replace_char CHR '' '' CHR ''_'' (tag_stripped h)),
                    PStr (tag_stripped s))))"

fun criteria_loop :: "(string \<Rightarrow> string) \<Rightarrow> criteria_item list \<Rightarrow> pydict \<Rightarrow> pydict" where
  "criteria_loop lower [] criteria = criteria"
| "criteria_loop lower (item # items) criteria =
     (case criteria_entry lower item of
        Inl e \<Rightarrow> criteria_loop lower items criteria
      | Inr (key, val) \<Rightarrow> criteria_loop lower items (dict_set key val criteria))"

definition get_job_criteria :: "(string \<Rightarrow> string) \<Rightarrow> linkedin_soup \<Rightarrow> pydict" where
  "get_job_criteria lower job_soup = criteria_loop lower (job_criteria_items job_soup) []"

definition job_url :: "string \<Rightarrow> string" where
  "job_url job_id = ''https://www.linkedin.com/jobs/view/'' @ job_id"

text \<open>
  The dictionary display of \<^verbatim>\<open>scrape_job_page\<close>. Every entry is guarded by
  \<^verbatim>\<open>... if soup.find(...) else None\<close>; the only expression that can raise is
  \<^verbatim>\<open>soup.find('a', class_='topcard__org-name-link')['href']\<close>, on a link without
  \<^verbatim>\<open>href\<close>.
\<close>

definition company_url_of :: "linkedin_soup \<Rightarrow> exn + pyval" where
  "company_url_of soup =
     (case org_name_link soup of
        None \<Rightarrow> Inr PNone
      | Some a \<Rightarrow> (case attr_index a ''href'' of Inl e \<Rightarrow> Inl e | Inr h \<Rightarrow> Inr (PStr h)))"

definition job_data_display :: "string \<Rightarrow> linkedin_soup \<Rightarrow> exn + pydict" where
  "job_data_display job_id soup =
     (case company_url_of soup of
        Inl e \<Rightarrow> Inl e
      | Inr company_url \<Rightarrow>
          Inr [(''job_id'', PStr job_id),
               (''title'', text_or_none (top_card_title soup)),
               (''company'', text_or_none (org_name_link soup)),
               (''location'', text_or_none (flavor_bullet soup)),
               (''posted'', text_or_none (posted_time_ago soup)),
               (''applicants'', text_or_none (num_applicants soup)),
               (''url'', PStr (job_url job_id)),
               (''company_url'', company_url)])"

definition with_description :: "linkedin_soup \<Rightarrow> pydict \<Rightarrow> pydict" where
  "with_description soup job_data =
     (case description_markup soup of
        None \<Rightarrow> job_data
      | Some ps \<Rightarrow> dict_set ''description'' (PStr (py_join [CHR 0x0A] ps)) job_data)"

text \<open>Lines 160 to 179: what the function does with a parsed response body.\<close>

definition parse_job_page :: "(string \<Rightarrow> string) \<Rightarrow> string \<Rightarrow> linkedin_soup \<Rightarrow> exn + pydict" where
  "parse_job_page lower job_id soup =
     (case job_data_display job_id soup of
        Inl e \<Rightarrow> Inl e
      | Inr job_data \<Rightarrow>
          Inr (dict_update (with_description soup job_data) (get_job_criteria lower soup)))"

text \<open>
  The body of \<^verbatim>\<open>scrape_job_page\<close> given what \<^verbatim>\<open>requests.get\<close> did: the value returned
  (\<^verbatim>\<open>None\<close> or the dictionary) and the log lines written.
\<close>

definition job_page_of_response ::
  "(string \<Rightarrow> string) \<Rightarrow> string \<Rightarrow> exn + http_response \<Rightarrow>
     pydict option \<times> (level \<times> log_msg) list" where
  "job_page_of_response lower job_id got =
     (case got of
        Inl e \<Rightarrow> (None, [(ERROR, ErrorScrapingJob job_id e)])
      | Inr response \<Rightarrow>
          if status_code response \<noteq> 200
          then (None, [(ERROR, FailedToFetchJob job_id (status_code response))])
          else (case parse_job_page lower job_id (body response) of
                  Inl e \<Rightarrow> (None, [(ERROR, ErrorScrapingJob job_id e)])
                | Inr job_data \<Rightarrow> (Some job_data, [])))"

definition detail_url :: "string \<Rightarrow> string" where
  "detail_url job_id = ''https://www.linkedin.com/jobs-guest/jobs/api/jobPosting/'' @ job_id"

definition scrape_job_page :: "linkedin_env \<Rightarrow> string \<Rightarrow> world \<Rightarrow> pydict option \<times> world" where
  "scrape_job_page env job_id w =
     (case requests_get env (detail_url job_id) [] w of
        (got, w1) \<Rightarrow>
          (case job_page_of_response (str_lower env) job_id got of
             (result, lines) \<Rightarrow> (result, w1\<lparr>logged := logged w1 @ lines\<rparr>)))"

section \<open>LinkedIn: the retry loop and the run (\<^verbatim>\<open>scrape_jobs_linkedin\<close>)\<close>

definition max_retries :: nat where
  "max_retries = 3"

text \<open>
  \<^verbatim>\<open>for attempt in range(max_retries)\<close>: the argument counts the attempts left.
  \<^verbatim>\<open>if job_info:\<close> is the truth value of \<^verbatim>\<open>None\<close> or of a dictionary (an empty one is
  false). The result \<^verbatim>\<open>None\<close> is the loop ending without \<^verbatim>\<open>break\<close>.
\<close>

fun attempt_loop :: "linkedin_env \<Rightarrow> string \<Rightarrow> nat \<Rightarrow> world \<Rightarrow> pydict option \<times> world" where
  "attempt_loop env job_id 0 w = (None, w)"
| "attempt_loop env job_id (Suc n) w =
     (case scrape_job_page env job_id w of
        (Some job_info, w1) \<Rightarrow>
          if job_info \<noteq> []
          then (Some job_info, log_event INFO (SuccessfullyScraped job_id) w1)
          else attempt_loop env job_id n w1
      | (None, w1) \<Rightarrow> attempt_loop env job_id n w1)"

text \<open>One identifier: the attempts, and the \<^verbatim>\<open>else\<close> branch of the \<^verbatim>\<open>for\<close>.\<close>

definition resolve_job :: "linkedin_env \<Rightarrow> nat \<Rightarrow> string \<Rightarrow> world \<Rightarrow> pydict option \<times> world" where
  "resolve_job env m job_id w =
     (case attempt_loop env job_id m w of
        (Some job_info, w1) \<Rightarrow> (Some job_info, w1)
      | (None, w1) \<Rightarrow> (None, log_event WARNING (FailedAfterAttempts job_id m) w1))"

fun resolve_jobs :: "linkedin_env \<Rightarrow> string list \<Rightarrow> world \<Rightarrow> pydict list \<times> world" where
  "resolve_jobs env [] w = ([], w)"
| "resolve_jobs env (job_id # job_ids) w =
     (case resolve_job env max_retries job_id w of
        (r, w1) \<Rightarrow>
          (case resolve_jobs env job_ids w1 of
             (jobs_data, w2) \<Rightarrow>
               ((case r of None \<Rightarrow> jobs_data | Some job_info \<Rightarrow> job_info # jobs_data), w2)))"

text \<open>
  What the call of \<^verbatim>\<open>scrape_job_page\<close> that issues the \<open>n\<close>-th request of the run
  returns.
\<close>

definition detail_attempt :: "linkedin_env \<Rightarrow> string \<Rightarrow> nat \<Rightarrow> pydict option" where
  "detail_attempt env job_id n =
     fst (job_page_of_response (str_lower env) job_id (reply env n (detail_url job_id) []))"

section \<open>LinkedIn: the search pages and the endpoint\<close>

record linkedin_search_params =
  "keywords" :: string
  li_location :: "string option"
  li_remote :: "string option"
  li_experience_level :: "string option"
  li_job_type :: "string option"
  time_posted :: "string option"
  pages :: int

text \<open>\<^verbatim>\<open>LinkedInSearchParams(keywords=kw)\<close>: the other fields take their defaults.\<close>

definition LinkedInSearchParams :: "string \<Rightarrow> linkedin_search_params" where
  "LinkedInSearchParams kw =
     \<lparr>keywords = kw, li_location = None, li_remote = None, li_experience_level = None,
      li_job_type = None, time_posted = None, pages = 1\<rparr>"

definition opt_str :: "string option \<Rightarrow> pyval" where
  "opt_str x = (case x of None \<Rightarrow> PNone | Some s \<Rightarrow> PStr s)"

definition opt_int :: "int option \<Rightarrow> pyval" where
  "opt_int x = (case x of None \<Rightarrow> PNone | Some i \<Rightarrow> PInt i)"

text \<open>\<^verbatim>\<open>params.dict()\<close>.\<close>

definition params_dict :: "linkedin_search_params \<Rightarrow> pydict" where
  "params_dict params =
     [(''keywords'', PStr (keywords params)),
      (''location'', opt_str (li_location params)),
      (''remote'', opt_str (li_remote params)),
      (''experience_level'', opt_str (li_experience_level params)),
      (''job_type'', opt_str (li_job_type params)),
      (''time_posted'', opt_str (time_posted params)),
      (''pages'', PInt (pages params))]"

definition search_url :: string where
  "search_url = ''https://www.linkedin.com/jobs-guest/jobs/api/seeMoreJobPostings/search''"

definition request_params :: "linkedin_search_params \<Rightarrow> nat \<Rightarrow> pydict" where
  "request_params params page = dict_set ''start'' (PInt (int page * 25)) (params_dict params)"

text \<open>
  The identifiers of one search page: \<^verbatim>\<open>job.find('div', {'class': 'base-card'})\<close> may be
  \<^verbatim>\<open>None\<close>, and \<^verbatim>\<open>.get\<close> on it raises; an empty identifier is skipped (the walrus
  test). \<^verbatim>\<open>split(':')[-1]\<close> is the last piece, and \<^verbatim>\<open>split\<close> never gives an empty list.
\<close>

fun listing_ids :: "listing_item list \<Rightarrow> string list \<Rightarrow> exn + string list" where
  "listing_ids [] job_ids = Inr job_ids"
| "listing_ids (job # jobs) job_ids =
     (case base_card job of
        None \<Rightarrow> Inl AttributeError
      | Some base \<Rightarrow>
          (let job_id = last (py_split '':'' (attr_get base ''data-entity-urn'' ''''))
           in if job_id \<noteq> [] then listing_ids jobs (job_ids @ [job_id])
              else listing_ids jobs job_ids))"

text \<open>
  The body of the \<^verbatim>\<open>try\<close> of one page, given what \<^verbatim>\<open>requests.get\<close> did: the list of
  identifiers so far, or the exception raised, and the log lines written.
\<close>

definition listing_page_try ::
  "exn + http_response \<Rightarrow> string list \<Rightarrow> (exn + string list) \<times> (level \<times> log_msg) list" where
  "listing_page_try got job_ids =
     (case got of
        Inl e \<Rightarrow> (Inl e, [])
      | Inr response \<Rightarrow>
          if status_code response = 200
          then (listing_ids (list_items (body response)) job_ids, [])
          else (Inl (HTTPException (status_code response) (Literal ''Failed to fetch jobs'')),
                [(ERROR, FailedToFetchJobs (status_code response))]))"

text \<open>
  \<^verbatim>\<open>for page in range(params.pages)\<close>, with the handler that turns every exception of
  the page into \<^verbatim>\<open>HTTPException(500, str(e))\<close>.
\<close>

fun paginate ::
  "linkedin_env \<Rightarrow> linkedin_search_params \<Rightarrow> nat list \<Rightarrow> string list \<Rightarrow> world \<Rightarrow>
     (exn + string list) \<times> world" where
  "paginate env params [] job_ids w = (Inr job_ids, w)"
| "paginate env params (page # rest) job_ids w =
     (case requests_get env search_url (request_params params page) w of
        (got, w1) \<Rightarrow>
          (case listing_page_try got job_ids of
             (Inl e, lines) \<Rightarrow>
               (Inl (HTTPException 500 (StrOf e)),
                log_event ERROR (ErrorDuringJobScraping e) (w1\<lparr>logged := logged w1 @ lines\<rparr>))
           | (Inr job_ids', lines) \<Rightarrow>
               paginate env params rest job_ids' (w1\<lparr>logged := logged w1 @ lines\<rparr>)))"

definition page_range :: "int \<Rightarrow> nat list" where
  "page_range n = [0..<nat n]"

definition scrape_jobs_linkedin ::
  "linkedin_env \<Rightarrow> linkedin_search_params \<Rightarrow> world \<Rightarrow> (exn + pydict list) \<times> world" where
  "scrape_jobs_linkedin env params w =
     (case paginate env params (page_range (pages params)) [] w of
        (Inl e, w1) \<Rightarrow> (Inl e, w1)
      | (Inr job_ids, w1) \<Rightarrow>
          (case resolve_jobs env job_ids w1 of (jobs_data, w2) \<Rightarrow> (Inr jobs_data, w2)))"

record standard_response =
  success :: bool
  message :: string
  count :: nat
  data :: "pydict list"

definition scrape_linkedin_jobs ::
  "linkedin_env \<Rightarrow> linkedin_search_params \<Rightarrow> world \<Rightarrow> (exn + standard_response) \<times> world" where
  "scrape_linkedin_jobs env params w =
     (case scrape_jobs_linkedin env params w of
        (Inl e, w1) \<Rightarrow>
          (Inl (HTTPException 500 (Prefixed ''LinkedIn scraping failed: '' e)),
           log_event ERROR (LinkedInScrapingFailed e) w1)
      | (Inr job_data, w1) \<Rightarrow>
          (Inr \<lparr>success = True,
                message = ''Found '' @ str_nat (length job_data) @ '' LinkedIn jobs'',
                count = length job_data,
                data = map (\<lambda>job. dict_update [(''platform'', PStr ''LinkedIn'')] job) job_data\<rparr>,
           w1))"


section \<open>URL encoding (\<^verbatim>\<open>urllib.parse.urlencode\<close>, and \<^verbatim>\<open>requests\<close> on \<^verbatim>\<open>params=\<close>)\<close>

definition py_str :: "pyval \<Rightarrow> string" where
  "py_str v =
     (case v of
        PNone \<Rightarrow> ''None''
      | PStr s \<Rightarrow> s
      | PBool b \<Rightarrow> (if b then ''True'' else ''False'')
      | PInt i \<Rightarrow> str_int i)"

definition unreserved :: "char \<Rightarrow> bool" where
  "unreserved c =
     (c \<in> set ''ABCDEFGHIJKLMNOPQRSTUVWXYZabcdefghijklmnopqrstuvwxyz0123456789_.-~'')"

definition hex_digit :: "nat \<Rightarrow> char" where
  "hex_digit n = ''0123456789ABCDEF'' ! n"

definition quote_char :: "char \<Rightarrow> string" where
  "quote_char c =
     (if unreserved c then [c]
      else if c = CHR '' '' then ''+''
      else [CHR ''%'', hex_digit ((of_char c :: nat) div 16), hex_digit ((of_char c :: nat) mod 16)])"

definition quote_plus :: "string \<Rightarrow> string" where
  "quote_plus s = concat (map quote_char s)"

definition urlencode :: "pydict \<Rightarrow> string" where
  "urlencode query =
     py_join ''&'' (map (\<lambda>(k, v). quote_plus k @ ''='' @ quote_plus (py_str v)) query)"

text \<open>
  \<^verbatim>\<open>requests\<close> leaves out the parameters whose value is \<^verbatim>\<open>None\<close> and encodes the others
  as \<^verbatim>\<open>urlencode\<close> does. This is the library's behaviour, not code of the program.
\<close>

definition requests_query :: "pydict \<Rightarrow> string" where
  "requests_query params = urlencode (filter (\<lambda>(k, v). v \<noteq> PNone) params)"

section \<open>Indeed: documents, the browser and its world\<close>

text \<open>
  A text node of the page with what \<^verbatim>\<open>find_next("ul")\<close> gives from it; a job card
  (\<^verbatim>\<open>div.job_seen_beacon\<close>) with its \<^verbatim>\<open>a.jcs-JobTitle\<close>; a page as the answers to the
  queries of \<^verbatim>\<open>scrape_indeed\<close> and \<^verbatim>\<open>get_job_details\<close>.
\<close>

record text_node =
  node_text :: string
  next_ul :: "tag option"

record job_card =
  title_link :: "tag option"

record indeed_soup =
  job_cards :: "job_card list"
  og_description :: "tag option"
  title_tag :: "tag option"
  og_image :: "tag option"
  remote_badge :: "tag option"
  job_description :: "tag option"
  page_strings :: "text_node list"
  og_url :: "tag option"

text \<open>
  What the browser and the random generator do is given by the environment, indexed by
  the number of interactions so far (\<open>tick\<close>): \<^verbatim>\<open>get_driver()\<close>, \<^verbatim>\<open>driver.get(url)\<close>
  with the page source parsed afterwards, \<^verbatim>\<open>ActionChains.perform()\<close>,
  \<^verbatim>\<open>driver.find_element\<close>, and one random draw. \<^verbatim>\<open>driver.quit()\<close> is taken not to raise.
  The environment also holds Python's \<^verbatim>\<open>str.strip\<close>.
\<close>

record indeed_env =
  driver_start :: "exn option"
  navigate :: "nat \<Rightarrow> string \<Rightarrow> exn + indeed_soup"
  perform :: "nat \<Rightarrow> exn option"
  find_body :: "nat \<Rightarrow> exn option"
  random_draw :: "nat \<Rightarrow> nat"
  str_strip :: "string \<Rightarrow> string"

datatype print_event =
    Starting pydict
  | PageProcessed nat nat
  | ScrapingInterrupted exn
  | TotalJobsCollected nat

record browser =
  tick :: nat
  visited :: "string list"
  moved :: "(int \<times> int) list"
  body_lookups :: nat
  printed :: "print_event list"
  errors_logged :: "(level \<times> log_msg) list"

definition driver_get :: "indeed_env \<Rightarrow> string \<Rightarrow> browser \<Rightarrow> (exn + indeed_soup) \<times> browser" where
  "driver_get env url b =
     (navigate env (tick b) url, b\<lparr>tick := tick b + 1, visited := visited b @ [url]\<rparr>)"

definition print_line :: "print_event \<Rightarrow> browser \<Rightarrow> browser" where
  "print_line e b = b\<lparr>printed := printed b @ [e]\<rparr>"

text \<open>\<^verbatim>\<open>random.randint(a, b)\<close> from one draw: a value between \<open>a\<close> and \<open>b\<close>, both included.\<close>

definition randint :: "int \<Rightarrow> int \<Rightarrow> nat \<Rightarrow> int" where
  "randint a b r = a + int (r mod nat (b - a + 1))"

section \<open>Indeed: \<^verbatim>\<open>human_like_interaction\<close>\<close>

text \<open>
  The first loop: two offsets are drawn, then the move is performed inside
  \<^verbatim>\<open>try ... except Exception: pass\<close>.
\<close>

fun move_loop :: "indeed_env \<Rightarrow> nat \<Rightarrow> browser \<Rightarrow> browser" where
  "move_loop env 0 b = b"
| "move_loop env (Suc n) b =
     (let x_offset = randint (- 50) 50 (random_draw env (tick b));
          y_offset = randint (- 50) 50 (random_draw env (tick b + 1));
          b1 = b\<lparr>tick := tick b + 3, moved := moved b @ [(x_offset, y_offset)]\<rparr>
      in case perform env (tick b + 2) of
           Some e \<Rightarrow> move_loop env n b1
         | None \<Rightarrow> move_loop env n b1)"

text \<open>
  The second loop: \<^verbatim>\<open>random.choice\<close>, then \<^verbatim>\<open>driver.find_element(...)\<close>, then the
  argument \<^verbatim>\<open>Keys.PAGE_DOWN\<close> (or \<^verbatim>\<open>Keys.PAGE_UP\<close>) is evaluated: the module never
  imports \<^verbatim>\<open>Keys\<close>, so this raises \<^verbatim>\<open>NameError\<close> when \<^verbatim>\<open>find_element\<close> did not raise
  first. Both are caught by \<^verbatim>\<open>except Exception: pass\<close>.
\<close>

definition scroll_try :: "indeed_env \<Rightarrow> browser \<Rightarrow> exn option \<times> browser" where
  "scroll_try env b =
     (let b1 = b\<lparr>tick := tick b + 2, body_lookups := body_lookups b + 1\<rparr>
      in case find_body env (tick b + 1) of
           Some e \<Rightarrow> (Some e, b1)
         | None \<Rightarrow> (Some (NameError ''Keys''), b1))"

fun scroll_loop :: "indeed_env \<Rightarrow> nat \<Rightarrow> browser \<Rightarrow> browser" where
  "scroll_loop env 0 b = b"
| "scroll_loop env (Suc n) b =
     (case scroll_try env b of
        (Some e, b1) \<Rightarrow> scroll_loop env n b1
      | (None, b1) \<Rightarrow> scroll_loop env n b1)"

text \<open>
  The function: the move by (10, 10) at its start is outside every \<^verbatim>\<open>try\<close>; then
  \<^verbatim>\<open>randint(2, 4)\<close> moves and \<^verbatim>\<open>randint(3, 5)\<close> scrolls. The result is the exception
  that leaves the function, if any.
\<close>

definition human_like_interaction :: "indeed_env \<Rightarrow> browser \<Rightarrow> exn option \<times> browser" where
  "human_like_interaction env b =
     (let b1 = b\<lparr>tick := tick b + 1, moved := moved b @ [(10, 10)]\<rparr>
      in case perform env (tick b) of
           Some e \<Rightarrow> (Some e, b1)
         | None \<Rightarrow>
             (let n_moves = nat (randint 2 4 (random_draw env (tick b1)));
                  b2 = move_loop env n_moves (b1\<lparr>tick := tick b1 + 1\<rparr>);
                  n_scrolls = nat (randint 3 5 (random_draw env (tick b2)));
                  b3 = scroll_loop env n_scrolls (b2\<lparr>tick := tick b2 + 1\<rparr>)
              in (None, b3)))"

section \<open>Indeed: \<^verbatim>\<open>get_job_details\<close>\<close>

definition details_template :: pydict where
  "details_template =
     [(''job_id'', PStr ''''),
      (''title'', PStr ''''),
      (''company'', PStr ''''),
      (''location'', PStr ''''),
      (''salary'', PStr ''''),
      (''posted'', PStr ''''),
      (''job_url'', PStr ''''),
      (''company_rating'', PStr ''''),
      (''job_type'', PStr ''''),
      (''shift'', PStr ''''),
      (''benefits'', PStr ''''),
      (''is_remote'', PBool False),
      (''is_urgent'', PBool False),
      (''job_snippet'', PStr ''''),
      (''experience_level'', PStr ''''),
      (''work_model'', PStr ''On-site''),
      (''image_link'', PStr ''''),
      (''apply_link'', PStr '''')]"

text \<open>The string stored under a key (\<^verbatim>\<open>details['job_url']\<close>).\<close>

definition str_value :: "pydict \<Rightarrow> string \<Rightarrow> string" where
  "str_value d k = (case map_of d k of Some (PStr s) \<Rightarrow> s | _ \<Rightarrow> [])"

text \<open>Lines 293 to 297: the fields read from the card's title link.\<close>

definition link_fields :: "job_card \<Rightarrow> pydict \<Rightarrow> pydict" where
  "link_fields job_card details =
     (case title_link job_card of
        None \<Rightarrow> details
      | Some job_link \<Rightarrow>
          (let d1 = dict_set ''job_id'' (PStr (attr_get job_link ''data-jk'' '''')) details;
               d2 = dict_set ''job_url''
                      (PStr (''https://in.indeed.com/viewjob?jk='' @ str_value d1 ''job_id'')) d1
           in dict_set ''title'' (PStr (tag_stripped job_link)) d2))"

text \<open>\<^verbatim>\<open>sub in s\<close> and \<^verbatim>\<open>soup.find(string=f)\<close>.\<close>

fun contains :: "string \<Rightarrow> string \<Rightarrow> bool" where
  "contains sub [] = (sub = [])"
| "contains sub (c # cs) = (take (length sub) (c # cs) = sub \<or> contains sub cs)"

definition find_string :: "(string \<Rightarrow> bool) \<Rightarrow> indeed_soup \<Rightarrow> text_node option" where
  "find_string f soup = find (\<lambda>n. f (node_text n)) (page_strings soup)"

text \<open>
  The right-hand sides of lines 303 to 327, each a value or the exception it raises.
  \<open>strip\<close> is Python's \<^verbatim>\<open>str.strip\<close>.
\<close>

definition meta_content :: "tag option \<Rightarrow> exn + pyval" where
  "meta_content t =
     (case t of
        None \<Rightarrow> Inr PNone
      | Some m \<Rightarrow> (case attr_index m ''content'' of Inl e \<Rightarrow> Inl e | Inr c \<Rightarrow> Inr (PStr c)))"

definition location_of :: "indeed_soup \<Rightarrow> exn + pyval" where
  "location_of soup =
     (case title_tag soup of
        None \<Rightarrow> Inr PNone
      | Some t \<Rightarrow>
          (case py_split '' - '' (tag_text t) of
             a # b # rest \<Rightarrow> Inr (PStr b)
           | _ \<Rightarrow> Inl IndexError))"

definition job_snippet_of :: "indeed_soup \<Rightarrow> pyval" where
  "job_snippet_of soup =
     (case job_description soup of
        None \<Rightarrow> PStr ''Not Provided''
      | Some d \<Rightarrow> PStr (tag_stripped d))"

definition rupee :: string where
  "rupee = [CHR 0xE2, CHR 0x82, CHR 0xB9]"

definition salary_of :: "(string \<Rightarrow> string) \<Rightarrow> indeed_soup \<Rightarrow> pyval" where
  "salary_of strip soup =
     (case find_string (\<lambda>text. text \<noteq> [] \<and> contains rupee text) soup of
        None \<Rightarrow> PStr ''Not mentioned''
      | Some pay_tag \<Rightarrow> PStr (strip (node_text pay_tag)))"

definition options_found :: "string list \<Rightarrow> indeed_soup \<Rightarrow> pyval" where
  "options_found options soup =
     (let found = filter (\<lambda>jt. find_string (\<lambda>text. text = jt) soup \<noteq> None) options
      in if found \<noteq> [] then PStr (py_join '', '' found) else PStr ''Not mentioned'')"

definition job_type_options :: "string list" where
  "job_type_options = [''Full-time'', ''Part-time'', ''Internship'', ''Permanent'', ''Contract'']"

definition shift_options :: "string list" where
  "shift_options = [''Day shift'', ''Night shift'', ''Rotational shift'', ''Fixed shift'']"

definition benefits_of :: "indeed_soup \<Rightarrow> exn + pyval" where
  "benefits_of soup =
     (case find_string (\<lambda>text. text \<noteq> [] \<and> contains ''Benefits'' text) soup of
        None \<Rightarrow> Inr (PStr ''Not mentioned'')
      | Some benefits_header \<Rightarrow>
          (case next_ul benefits_header of
             None \<Rightarrow> Inl AttributeError
           | Some ul \<Rightarrow> Inr (PStr (tag_text ul))))"

definition apply_link_of :: "indeed_soup \<Rightarrow> exn + pyval" where
  "apply_link_of soup =
     (case og_url soup of
        None \<Rightarrow> Inr (PStr ''Not found'')
      | Some apply_link_meta \<Rightarrow>
          (case attr_index apply_link_meta ''content'' of
             Inl e \<Rightarrow> Inl e
           | Inr c \<Rightarrow> Inr (PStr c)))"

definition page_assignments ::
  "(string \<Rightarrow> string) \<Rightarrow> indeed_soup \<Rightarrow> (string \<times> (exn + pyval)) list" where
  "page_assignments strip soup =
     [(''company'', meta_content (og_description soup)),
      (''location'', location_of soup),
      (''image_link'', meta_content (og_image soup)),
      (''is_remote'', Inr (PBool (remote_badge soup \<noteq> None))),
      (''job_snippet'', Inr (job_snippet_of soup)),
      (''salary'', Inr (salary_of strip soup)),
      (''job_type'', Inr (options_found job_type_options soup)),
      (''shift'', Inr (options_found shift_options soup)),
      (''benefits'', benefits_of soup),
      (''apply_link'', apply_link_of soup)]"

text \<open>
  The assignments run in order inside the single \<^verbatim>\<open>try\<close> of the function; the first
  one that raises ends them (\<^verbatim>\<open>except Exception: pass\<close>), and the dictionary is returned
  as it is then.
\<close>

fun assign_until_raise :: "(string \<times> (exn + pyval)) list \<Rightarrow> pydict \<Rightarrow> pydict" where
  "assign_until_raise [] details = details"
| "assign_until_raise ((k, Inl e) # rest) details = details"
| "assign_until_raise ((k, Inr v) # rest) details =
     assign_until_raise rest (dict_set k v details)"

definition get_job_details :: "indeed_env \<Rightarrow> job_card \<Rightarrow> browser \<Rightarrow> pydict \<times> browser" where
  "get_job_details env job_card b =
     (let details = link_fields job_card details_template
      in case driver_get env (str_value details ''job_url'') b of
           (Inl e, b1) \<Rightarrow> (details, b1)
         | (Inr soup, b1) \<Rightarrow>
             (assign_until_raise (page_assignments (str_strip env) soup) details, b1))"

section \<open>Indeed: the run (\<^verbatim>\<open>scrape_indeed\<close>) and the endpoint\<close>

definition PAGES_TO_SCRAPE :: nat where
  "PAGES_TO_SCRAPE = 1"

definition BASE_URL :: string where
  "BASE_URL = ''https://in.indeed.com/jobs''"

fun cards_loop :: "indeed_env \<Rightarrow> job_card list \<Rightarrow> pydict list \<Rightarrow> browser \<Rightarrow> pydict list \<times> browser" where
  "cards_loop env [] job_listings b = (job_listings, b)"
| "cards_loop env (job_card # rest) job_listings b =
     (case get_job_details env job_card b of
        (job_data, b1) \<Rightarrow> cards_loop env rest (job_listings @ [job_data]) b1)"

definition listing_url :: "pydict \<Rightarrow> nat \<Rightarrow> string" where
  "listing_url filters page =
     BASE_URL @ ''?'' @ urlencode (dict_set ''start'' (PInt (int page * 10)) filters)"

text \<open>
  The loop over the pages inside the \<^verbatim>\<open>try\<close>: the exception that ends it, if any, and
  the listings collected so far.
\<close>

fun pages_loop ::
  "indeed_env \<Rightarrow> pydict \<Rightarrow> nat list \<Rightarrow> pydict list \<Rightarrow> browser \<Rightarrow>
     (exn option \<times> pydict list) \<times> browser" where
  "pages_loop env filters [] job_listings b = ((None, job_listings), b)"
| "pages_loop env filters (page # rest) job_listings b =
     (case driver_get env (listing_url filters page) b of
        (Inl e, b1) \<Rightarrow> ((Some e, job_listings), b1)
      | (Inr soup, b1) \<Rightarrow>
          (case human_like_interaction env b1 of
             (Some e, b2) \<Rightarrow> ((Some e, job_listings), b2)
           | (None, b2) \<Rightarrow>
               (case cards_loop env (job_cards soup) job_listings b2 of
                  (job_listings', b3) \<Rightarrow>
                    pages_loop env filters rest job_listings'
                      (print_line (PageProcessed (page + 1) (length (job_cards soup))) b3))))"

definition scrape_indeed :: "indeed_env \<Rightarrow> pydict \<Rightarrow> browser \<Rightarrow> (exn + pydict list) \<times> browser" where
  "scrape_indeed env filters b =
     (let b0 = print_line (Starting filters) b
      in case driver_start env of
           Some e \<Rightarrow> (Inl e, b0)
         | None \<Rightarrow>
             (case pages_loop env filters [0..<PAGES_TO_SCRAPE] [] b0 of
                ((raised, job_listings), b1) \<Rightarrow>
                  (let b2 = (case raised of
                               None \<Rightarrow> b1
                             | Some e \<Rightarrow> print_line (ScrapingInterrupted e) b1)
                   in (Inr job_listings,
                       print_line (TotalJobsCollected (length job_listings)) b2))))"

record indeed_search_params =
  job_title :: string
  in_location :: "string option"
  days_posted :: "int option"
  radius :: "int option"
  in_job_type :: "string option"
  sort_by :: "string option"
  in_experience_level :: "string option"
  in_remote :: "string option"

text \<open>\<^verbatim>\<open>IndeedSearchParams(job_title=kw)\<close>: the other fields take their defaults.\<close>

definition IndeedSearchParams :: "string \<Rightarrow> indeed_search_params" where
  "IndeedSearchParams kw =
     \<lparr>job_title = kw, in_location = None, days_posted = Some 7, radius = Some 50,
      in_job_type = Some ''fulltime'', sort_by = Some ''date'',
      in_experience_level = None, in_remote = None\<rparr>"

definition indeed_filters :: "indeed_search_params \<Rightarrow> pydict" where
  "indeed_filters params =
     filter (\<lambda>(k, v). v \<noteq> PNone)
       [(''q'', PStr (job_title params)),
        (''l'', opt_str (in_location params)),
        (''fromage'', opt_int (days_posted params)),
        (''radius'', opt_int (radius params)),
        (''jt'', opt_str (in_job_type params)),
        (''sort'', opt_str (sort_by params)),
        (''explvl'', opt_str (in_experience_level params)),
        (''remote'', opt_str (in_remote params))]"

definition scrape_indeed_jobs ::
  "indeed_env \<Rightarrow> indeed_search_params \<Rightarrow> browser \<Rightarrow> (exn + standard_response) \<times> browser" where
  "scrape_indeed_jobs env params b =
     (case scrape_indeed env (indeed_filters params) b of
        (Inl e, b1) \<Rightarrow>
          (Inl (HTTPException 500 (Prefixed ''Indeed scraping failed: '' e)),
           b1\<lparr>errors_logged := errors_logged b1 @ [(ERROR, IndeedScrapingFailed e)]\<rparr>)
      | (Inr job_listings, b1) \<Rightarrow>
          (Inr \<lparr>success = True,
                message = ''Found '' @ str_nat (length job_listings) @ '' Indeed jobs'',
                count = length job_listings,
                data = map (\<lambda>job. dict_update [(''platform'', PStr ''Indeed'')] job) job_listings\<rparr>,
           b1))"

section \<open>Notions used in the statements\<close>

text \<open>
  A fetch fails: \<^verbatim>\<open>requests.get\<close> raises, or the status is not 200. A detail attempt gives
  no record: the fetch fails, or the extraction raises on the reply (a company link
  without \<^verbatim>\<open>href\<close>). A search page is read: it is fetched and every \<^verbatim>\<open>li\<close> of it has its
  \<^verbatim>\<open>div.base-card\<close>.
\<close>

definition fetch_failed :: "exn + http_response \<Rightarrow> bool" where
  "fetch_failed got = (case got of Inl e \<Rightarrow> True | Inr response \<Rightarrow> status_code response \<noteq> 200)"

definition attempt_fails :: "exn + http_response \<Rightarrow> bool" where
  "attempt_fails got =
     (case got of
        Inl e \<Rightarrow> True
      | Inr response \<Rightarrow> status_code response \<noteq> 200 \<or> isl (company_url_of (body response)))"

definition page_reads :: "exn + http_response \<Rightarrow> bool" where
  "page_reads got =
     (case got of
        Inl e \<Rightarrow> False
      | Inr response \<Rightarrow>
          status_code response = 200 \<and>
          list_all (\<lambda>job. base_card job \<noteq> None) (list_items (body response)))"

text \<open>
  The search request of one page, the search requests among those sent, and the address
  a card's detail page is read from.
\<close>

definition search_request :: "linkedin_search_params \<Rightarrow> nat \<Rightarrow> string \<times> pydict" where
  "search_request params page = (search_url, request_params params page)"

definition search_requests :: "world \<Rightarrow> (string \<times> pydict) list" where
  "search_requests w = filter (\<lambda>r. fst r = search_url) (sent w)"

definition card_url :: "job_card \<Rightarrow> string" where
  "card_url job_card = str_value (link_fields job_card details_template) ''job_url''"

text \<open>
  The keys that lines 303 to 327 assign, in the order of the lines; the lines up to line
  \<open>i\<close> do not raise; no line raises; no locator of the page matches.
\<close>

definition page_keys :: "string list" where
  "page_keys =
     [''company'', ''location'', ''image_link'', ''is_remote'', ''job_snippet'', ''salary'',
      ''job_type'', ''shift'', ''benefits'', ''apply_link'']"

definition runs_through :: "nat \<Rightarrow> (string \<times> (exn + pyval)) list \<Rightarrow> bool" where
  "runs_through i lines = list_all (\<lambda>(k, x). \<not> isl x) (take (Suc i) lines)"

definition no_line_raises :: "(string \<Rightarrow> string) \<Rightarrow> indeed_soup \<Rightarrow> bool" where
  "no_line_raises strip soup = list_all (\<lambda>(k, x). \<not> isl x) (page_assignments strip soup)"

definition nothing_matches :: "indeed_soup \<Rightarrow> bool" where
  "nothing_matches soup =
     (og_description soup = None \<and> title_tag soup = None \<and> og_image soup = None \<and>
      remote_badge soup = None \<and> job_description soup = None \<and> page_strings soup = [] \<and>
      og_url soup = None)"

text \<open>
  The keys that identify a record. The job criteria of a LinkedIn page keep them when no
  criteria heading normalises to one of them.
\<close>

definition identity_keys :: "string list" where
  "identity_keys = [''platform'', ''job_id'', ''url'']"

definition criteria_keep_identity :: "(string \<Rightarrow> string) \<Rightarrow> linkedin_soup \<Rightarrow> bool" where
  "criteria_keep_identity lower soup =
     list_all (\<lambda>k. k \<notin> set (dict_keys (get_job_criteria lower soup))) identity_keys"

text \<open>
  What a record of a card must hold under \<^verbatim>\<open>job_id\<close>, \<^verbatim>\<open>job_url\<close> and \<^verbatim>\<open>title\<close>, read
  from the card's title link (lines 293 to 297).
\<close>

definition card_fields :: "job_card \<Rightarrow> pydict \<Rightarrow> bool" where
  "card_fields job_card r =
     (case title_link job_card of
        None \<Rightarrow>
          dict_get r ''job_id'' = Some (PStr []) \<and> dict_get r ''job_url'' = Some (PStr []) \<and>
          dict_get r ''title'' = Some (PStr [])
      | Some job_link \<Rightarrow>
          dict_get r ''job_id'' = Some (PStr (attr_get job_link ''data-jk'' [])) \<and>
          dict_get r ''job_url'' =
            Some (PStr (''https://in.indeed.com/viewjob?jk='' @ attr_get job_link ''data-jk'' [])) \<and>
          dict_get r ''title'' = Some (PStr (tag_stripped job_link)))"

text \<open>
  The decoding of a query component: \<^verbatim>\<open>+\<close> is a space, \<^verbatim>\<open>%XY\<close> is the byte with the
  hexadecimal value \<^verbatim>\<open>XY\<close>, every other character is itself.
\<close>

definition hex_value :: "char \<Rightarrow> nat" where
  "hex_value c =
     (case map_of (zip ''0123456789ABCDEF'' [0, 1, 2, 3, 4, 5, 6, 7, 8, 9, 10, 11, 12, 13, 14, 15]) c of
        None \<Rightarrow> 0
      | Some n \<Rightarrow> n)"

function url_decode :: "string \<Rightarrow> string" where
  "url_decode [] = []"
| "url_decode (c # cs) =
     (if c = CHR ''+'' then CHR '' '' # url_decode cs
      else if c = CHR ''%'' \<and> 2 \<le> length cs
      then char_of (hex_value (cs ! 0) * 16 + hex_value (cs ! 1)) # url_decode (drop 2 cs)
      else c # url_decode cs)"
  by pat_completeness auto
termination
  by (relation "measure length") auto

section \<open>Concrete documents and environments\<close>

text \<open>
  Python's \<^verbatim>\<open>str.lower\<close> and \<^verbatim>\<open>str.strip\<close> as they act on a text whose cased letters and
  white space are ASCII. They serve the concrete environments below only.
\<close>

definition lower_char :: "char \<Rightarrow> char" where
  "lower_char c =
     (case map_of (zip ''ABCDEFGHIJKLMNOPQRSTUVWXYZ'' ''abcdefghijklmnopqrstuvwxyz'') c of
        None \<Rightarrow> c
      | Some l \<Rightarrow> l)"

definition ascii_lower :: "string \<Rightarrow> string" where
  "ascii_lower s = map lower_char s"

definition is_space :: "char \<Rightarrow> bool" where
  "is_space c =
     (c \<in> set [CHR '' '', CHR 0x09, CHR 0x0A, CHR 0x0B, CHR 0x0C, CHR 0x0D,
               CHR 0x1C, CHR 0x1D, CHR 0x1E, CHR 0x1F])"

definition ascii_strip :: "string \<Rightarrow> string" where
  "ascii_strip s = rev (dropWhile is_space (rev (dropWhile is_space s)))"

definition world0 :: world where
  "world0 = \<lparr>sent = [], logged = []\<rparr>"

definition empty_soup :: linkedin_soup where
  "empty_soup =
     \<lparr>list_items = [], top_card_title = None, org_name_link = None, flavor_bullet = None,
      posted_time_ago = None, num_applicants = None, description_markup = None,
      job_criteria_items = []\<rparr>"

definition no_tag :: tag where
  "no_tag = \<lparr>tag_attrs = [], tag_text = [], tag_stripped = []\<rparr>"

text \<open>A LinkedIn environment from its replies.\<close>

definition network :: "(nat \<Rightarrow> string \<Rightarrow> pydict \<Rightarrow> exn + http_response) \<Rightarrow> linkedin_env" where
  "network f = \<lparr>reply = f, str_lower = ascii_lower\<rparr>"

text \<open>
  A detail page with a title, a company link with its \<^verbatim>\<open>href\<close>, and two job criteria;
  the same page with the \<^verbatim>\<open>href\<close> missing.
\<close>

definition acme_page :: linkedin_soup where
  "acme_page =
     empty_soup
       \<lparr>top_card_title := Some (no_tag\<lparr>tag_stripped := ''Software Engineer''\<rparr>),
        org_name_link := Some (no_tag\<lparr>tag_attrs := [(''href'', ''https://www.linkedin.com/company/acme'')],
                                     tag_stripped := ''Acme''\<rparr>),
        job_criteria_items :=
          [\<lparr>item_h3 = Some (no_tag\<lparr>tag_stripped := ''Seniority level''\<rparr>),
            item_span = Some (no_tag\<lparr>tag_stripped := ''Entry level''\<rparr>)\<rparr>,
           \<lparr>item_h3 = None, item_span = Some (no_tag\<lparr>tag_stripped := ''Full-time''\<rparr>)\<rparr>]\<rparr>"

definition acme_record :: "string \<Rightarrow> pydict" where
  "acme_record job_id =
     [(''job_id'', PStr job_id), (''title'', PStr ''Software Engineer''),
      (''company'', PStr ''Acme''), (''location'', PNone), (''posted'', PNone),
      (''applicants'', PNone), (''url'', PStr (''https://www.linkedin.com/jobs/view/'' @ job_id)),
      (''company_url'', PStr ''https://www.linkedin.com/company/acme''),
      (''seniority_level'', PStr ''Entry level'')]"

definition hrefless_page :: linkedin_soup where
  "hrefless_page =
     empty_soup\<lparr>top_card_title := Some (no_tag\<lparr>tag_stripped := ''Software Engineer''\<rparr>),
                org_name_link := Some (no_tag\<lparr>tag_stripped := ''Acme''\<rparr>)\<rparr>"

text \<open>
  A detail page without the location tag, with a job-criteria item headed \<^verbatim>\<open>Location\<close>; a
  detail page with a job-criteria item headed \<^verbatim>\<open>URL\<close> with an empty value.
\<close>

definition relocated_page :: linkedin_soup where
  "relocated_page =
     empty_soup\<lparr>job_criteria_items :=
       [\<lparr>item_h3 = Some (no_tag\<lparr>tag_stripped := ''Location''\<rparr>),
         item_span = Some (no_tag\<lparr>tag_stripped := ''Remote''\<rparr>)\<rparr>]\<rparr>"

definition overriding_page :: linkedin_soup where
  "overriding_page =
     empty_soup\<lparr>job_criteria_items :=
       [\<lparr>item_h3 = Some (no_tag\<lparr>tag_stripped := ''URL''\<rparr>), item_span = Some no_tag\<rparr>]\<rparr>"

text \<open>The first request times out, every later one is answered 200 with the page above.\<close>

definition fails_once :: linkedin_env where
  "fails_once =
     network (\<lambda>n url params.
       if n < 1 then Inl (LibraryError ''timeout'')
       else Inr \<lparr>status_code = 200, body = acme_page\<rparr>)"

text \<open>Every request is answered 200 with the page whose company link has no \<^verbatim>\<open>href\<close>.\<close>

definition hrefless_board :: linkedin_env where
  "hrefless_board = network (\<lambda>n url params. Inr \<lparr>status_code = 200, body = hrefless_page\<rparr>)"

text \<open>
  A board whose search page lists the identifiers \<open>ids\<close> and whose detail endpoint
  answers 200 (with the page above) for the identifiers in \<open>ok\<close> and 429 for the others.
\<close>

definition listing_tag :: "string \<Rightarrow> listing_item" where
  "listing_tag job_id =
     \<lparr>base_card = Some \<lparr>tag_attrs = [(''data-entity-urn'', ''urn:li:jobPosting:'' @ job_id)],
                         tag_text = [], tag_stripped = []\<rparr>\<rparr>"

definition listing_soup :: "string list \<Rightarrow> linkedin_soup" where
  "listing_soup ids = empty_soup\<lparr>list_items := map listing_tag ids\<rparr>"

definition board_env :: "string list \<Rightarrow> string list \<Rightarrow> linkedin_env" where
  "board_env ids ok =
     network (\<lambda>n url params.
       if url = search_url then Inr \<lparr>status_code = 200, body = listing_soup ids\<rparr>
       else if url \<in> set (map detail_url ok) then Inr \<lparr>status_code = 200, body = acme_page\<rparr>
       else Inr \<lparr>status_code = 429, body = empty_soup\<rparr>)"

text \<open>
  Scenario B of the specification: two identifiers are listed, the detail fetch of the
  second one fails at every attempt. Then a board that lists one identifier, a board that
  answers every request with 429, and a board whose search page has a \<^verbatim>\<open>li\<close> without
  \<^verbatim>\<open>div.base-card\<close>.
\<close>

definition scenario_b :: linkedin_env where
  "scenario_b = board_env [''1001'', ''1002''] [''1001'']"


definition blocked_board :: linkedin_env where
  "blocked_board = network (\<lambda>n url params. Inr \<lparr>status_code = 429, body = empty_soup\<rparr>)"

definition cardless_board :: linkedin_env where
  "cardless_board =
     network (\<lambda>n url params.
       Inr \<lparr>status_code = 200, body = empty_soup\<lparr>list_items := [\<lparr>base_card = None\<rparr>]\<rparr>\<rparr>)"

definition data_scientist :: linkedin_search_params where
  "data_scientist = LinkedInSearchParams ''Data Scientist''"

definition two_pages :: linkedin_search_params where
  "two_pages = (LinkedInSearchParams ''Data Scientist'')\<lparr>pages := 2\<rparr>"


definition no_jobs_response :: standard_response where
  "no_jobs_response =
     \<lparr>success = True, message = ''Found 0 Indeed jobs'', count = 0, data = []\<rparr>"

text \<open>Browsers: the state at the start of a run, and three environments.\<close>

definition browser0 :: browser where
  "browser0 = \<lparr>tick = 0, visited = [], moved = [], body_lookups = 0, printed = [],
                errors_logged = []\<rparr>"

definition blank_page :: indeed_soup where
  "blank_page =
     \<lparr>job_cards = [], og_description = None, title_tag = None, og_image = None,
      remote_badge = None, job_description = None, page_strings = [], og_url = None\<rparr>"

text \<open>Every \<^verbatim>\<open>driver.get\<close> fails (the site blocks the browser).\<close>

definition blocked_browser :: indeed_env where
  "blocked_browser =
     \<lparr>driver_start = None,
      navigate = (\<lambda>n url. Inl (LibraryError ''net::ERR_CONNECTION_RESET'')),
      perform = (\<lambda>n. None), find_body = (\<lambda>n. None), random_draw = (\<lambda>n. 0),
      str_strip = ascii_strip\<rparr>"

text \<open>
  The listing page (the first \<^verbatim>\<open>driver.get\<close>) shows the cards \<open>cards\<close>; every later page
  is \<open>detail\<close>.
\<close>

definition site :: "job_card list \<Rightarrow> indeed_soup \<Rightarrow> indeed_env" where
  "site cards detail =
     \<lparr>driver_start = None,
      navigate = (\<lambda>n url. if n = 0 then Inr (blank_page\<lparr>job_cards := cards\<rparr>) else Inr detail),
      perform = (\<lambda>n. None), find_body = (\<lambda>n. None), random_draw = (\<lambda>n. 0),
      str_strip = ascii_strip\<rparr>"

text \<open>The pointer cannot move: every \<^verbatim>\<open>perform()\<close> raises.\<close>

definition stuck_pointer :: indeed_env where
  "stuck_pointer =
     \<lparr>driver_start = None,
      navigate = (\<lambda>n url. Inr blank_page),
      perform = (\<lambda>n. Some (LibraryError ''MoveTargetOutOfBoundsException'')),
      find_body = (\<lambda>n. None), random_draw = (\<lambda>n. 0),
      str_strip = ascii_strip\<rparr>"

definition linked_card :: "string \<Rightarrow> string \<Rightarrow> job_card" where
  "linked_card jk title =
     \<lparr>title_link = Some \<lparr>tag_attrs = [(''data-jk'', jk)], tag_text = title,
                          tag_stripped = title\<rparr>\<rparr>"

definition unlinked_card :: job_card where
  "unlinked_card = \<lparr>title_link = None\<rparr>"

text \<open>
  A detail page on which every line runs: company, a title with its location, no image, a
  remote badge, a description, a pay line, two job types, no shift, no benefits, and the
  \<^verbatim>\<open>og:url\<close>. Then the same page with a title that has no \<^verbatim>\<open>" - "\<close>.
\<close>

definition pune_page :: indeed_soup where
  "pune_page =
     \<lparr>job_cards = [],
      og_description = Some (no_tag\<lparr>tag_attrs := [(''content'', ''Acme'')]\<rparr>),
      title_tag = Some (no_tag\<lparr>tag_text := ''Developer - Pune - Indeed.com''\<rparr>),
      og_image = None,
      remote_badge = Some no_tag,
      job_description = Some (no_tag\<lparr>tag_stripped := ''Builds things''\<rparr>),
      page_strings =
        [\<lparr>node_text = ''Full-time'', next_ul = None\<rparr>,
         \<lparr>node_text = '' '' @ rupee @ ''10 a month '', next_ul = None\<rparr>,
         \<lparr>node_text = ''Contract'', next_ul = None\<rparr>],
      og_url = Some (no_tag\<lparr>tag_attrs := [(''content'', ''https://in.indeed.com/viewjob?jk=abc'')]\<rparr>)\<rparr>"

definition untitled_page :: indeed_soup where
  "untitled_page = pune_page\<lparr>title_tag := Some (no_tag\<lparr>tag_text := ''Developer''\<rparr>)\<rparr>"





text \<open>
  The dictionary of the linked card read on the page whose title has no \<^verbatim>\<open>" - "\<close> (the line
  of \<^verbatim>\<open>location\<close> raises), and the one read on the page where nothing matches.
\<close>

definition untitled_record :: pydict where
  "untitled_record =
     [(''job_id'', PStr ''abc''), (''title'', PStr ''Dev''), (''company'', PStr ''Acme''),
      (''location'', PStr []), (''salary'', PStr []), (''posted'', PStr []),
      (''job_url'', PStr ''https://in.indeed.com/viewjob?jk=abc''),
      (''company_rating'', PStr []), (''job_type'', PStr []), (''shift'', PStr []),
      (''benefits'', PStr []), (''is_remote'', PBool False), (''is_urgent'', PBool False),
      (''job_snippet'', PStr []), (''experience_level'', PStr []),
      (''work_model'', PStr ''On-site''), (''image_link'', PStr []), (''apply_link'', PStr [])]"

definition unmatched_record :: pydict where
  "unmatched_record =
     [(''job_id'', PStr ''abc''), (''title'', PStr ''Dev''), (''company'', PNone),
      (''location'', PNone), (''salary'', PStr ''Not mentioned''), (''posted'', PStr []),
      (''job_url'', PStr ''https://in.indeed.com/viewjob?jk=abc''),
      (''company_rating'', PStr []), (''job_type'', PStr ''Not mentioned''),
      (''shift'', PStr ''Not mentioned''), (''benefits'', PStr ''Not mentioned''),
      (''is_remote'', PBool False), (''is_urgent'', PBool False),
      (''job_snippet'', PStr ''Not Provided''), (''experience_level'', PStr []),
      (''work_model'', PStr ''On-site''), (''image_link'', PNone),
      (''apply_link'', PStr ''Not found'')]"

section \<open>Helper lemmas\<close>

lemma requests_get_sent:
  "sent (snd (requests_get env url params w)) = sent w @ [(url, params)]"
  by (simp add: requests_get_def)

lemma scrape_job_page_attempt:
  "fst (scrape_job_page env job_id w) = detail_attempt env job_id (length (sent w))"
  by (simp add: scrape_job_page_def requests_get_def detail_attempt_def split: prod.splits)

lemma scrape_job_page_sent:
  "sent (snd (scrape_job_page env job_id w)) = sent w @ [(detail_url job_id, [])]"
  by (simp add: scrape_job_page_def requests_get_def split: prod.splits)

lemma dict_set_nonempty: "dict_set k v d \<noteq> []"
  by (cases d) auto

lemma dict_update_nonempty: "d \<noteq> [] \<Longrightarrow> dict_update d kvs \<noteq> []"
  by (induction d kvs rule: dict_update.induct) (auto simp: dict_set_nonempty)

lemma parse_job_page_nonempty: "parse_job_page lower job_id soup = Inr d \<Longrightarrow> d \<noteq> []"
  by (auto simp: parse_job_page_def job_data_display_def with_description_def
        dict_set_nonempty
      intro!: dict_update_nonempty split: sum.splits option.splits)

lemma detail_attempt_nonempty: "detail_attempt env job_id n = Some d \<Longrightarrow> d \<noteq> []"
  by (auto simp: detail_attempt_def job_page_of_response_def dest: parse_job_page_nonempty
      split: sum.splits if_splits)

lemma log_event_sent: "sent (log_event l m w) = sent w"
  by (simp add: log_event_def)

lemma attempt_loop_all_fail:
  "\<forall>i<m. detail_attempt env job_id (length (sent w) + i) = None \<Longrightarrow>
   fst (attempt_loop env job_id m w) = None \<and>
   sent (snd (attempt_loop env job_id m w)) = sent w @ replicate m (detail_url job_id, [])"
proof (induction m arbitrary: w)
  case 0
  then show ?case by simp
next
  case (Suc m)
  obtain r w1 where sp: "scrape_job_page env job_id w = (r, w1)" by force
  have r: "r = None"
    using Suc.prems[rule_format, of 0] scrape_job_page_attempt[of env job_id w] sp
    by simp
  have len: "sent w1 = sent w @ [(detail_url job_id, [])]"
    using scrape_job_page_sent[of env job_id w] sp by simp
  have "\<forall>i<m. detail_attempt env job_id (length (sent w1) + i) = None"
    using Suc.prems len by auto
  from Suc.IH[OF this] show ?case using sp r len by (simp add: replicate_append_same)
qed

lemma attempt_loop_success:
  "\<forall>i<k. detail_attempt env job_id (length (sent w) + i) = None \<Longrightarrow>
   detail_attempt env job_id (length (sent w) + k) = Some r \<Longrightarrow> k < m \<Longrightarrow>
   fst (attempt_loop env job_id m w) = Some r \<and>
   sent (snd (attempt_loop env job_id m w)) = sent w @ replicate (Suc k) (detail_url job_id, [])"
proof (induction k arbitrary: w m)
  case 0
  then obtain m' where m: "m = Suc m'" by (cases m) auto
  obtain x w1 where sp: "scrape_job_page env job_id w = (x, w1)" by force
  have x: "x = Some r"
    using 0 scrape_job_page_attempt[of env job_id w] sp by simp
  have ne: "r \<noteq> []" using 0 detail_attempt_nonempty by fastforce
  have len: "sent w1 = sent w @ [(detail_url job_id, [])]"
    using scrape_job_page_sent[of env job_id w] sp by simp
  show ?case using m sp x ne len by (simp add: log_event_sent)
next
  case (Suc k)
  then obtain m' where m: "m = Suc m'" and km: "k < m'" by (cases m) auto
  obtain x w1 where sp: "scrape_job_page env job_id w = (x, w1)" by force
  have x: "x = None"
    using Suc.prems(1)[rule_format, of 0] scrape_job_page_attempt[of env job_id w] sp
    by simp
  have len: "sent w1 = sent w @ [(detail_url job_id, [])]"
    using scrape_job_page_sent[of env job_id w] sp by simp
  have a: "\<forall>i<k. detail_attempt env job_id (length (sent w1) + i) = None"
    using Suc.prems(1) len by auto
  have b: "detail_attempt env job_id (length (sent w1) + k) = Some r"
    using Suc.prems(2) len by simp
  from Suc.IH[OF a b km] show ?case using sp x len m by (simp add: replicate_append_same)
qed

lemma resolve_job_fst: "fst (resolve_job env m job_id w) = fst (attempt_loop env job_id m w)"
  by (simp add: resolve_job_def split: prod.splits option.splits)

lemma resolve_job_sent:
  "sent (snd (resolve_job env m job_id w)) = sent (snd (attempt_loop env job_id m w))"
  by (simp add: resolve_job_def log_event_sent split: prod.splits option.splits)

text \<open>What an attempt returns, from the reply it gets.\<close>

lemma detail_attempt_fails:
  "attempt_fails (reply env n (detail_url job_id) []) \<Longrightarrow> detail_attempt env job_id n = None"
  by (auto simp: attempt_fails_def detail_attempt_def job_page_of_response_def
        parse_job_page_def job_data_display_def split: sum.splits)

lemma detail_attempt_record:
  assumes "reply env n (detail_url job_id) [] = Inr response"
    and "status_code response = 200"
    and "company_url_of (body response) = Inr company_url"
  shows "detail_attempt env job_id n =
     Some (dict_update
       (with_description (body response)
          [(''job_id'', PStr job_id),
           (''title'', text_or_none (top_card_title (body response))),
           (''company'', text_or_none (org_name_link (body response))),
           (''location'', text_or_none (flavor_bullet (body response))),
           (''posted'', text_or_none (posted_time_ago (body response))),
           (''applicants'', text_or_none (num_applicants (body response))),
           (''url'', PStr (''https://www.linkedin.com/jobs/view/'' @ job_id)),
           (''company_url'', company_url)])
       (get_job_criteria (str_lower env) (body response)))"
  using assms
  by (simp add: detail_attempt_def job_page_of_response_def parse_job_page_def
        job_data_display_def job_url_def)

lemmas linkedin_page_defs =
  job_page_of_response_def parse_job_page_def job_data_display_def company_url_of_def
  with_description_def get_job_criteria_def text_or_none_def job_url_def attr_index_def
  criteria_entry_def replace_char_def ascii_lower_def lower_char_def

lemmas linkedin_run_defs =
  scrape_linkedin_jobs_def scrape_jobs_linkedin_def page_range_def resolve_job_def
  scrape_job_page_def requests_get_def listing_page_try_def log_event_def
  request_params_def params_dict_def LinkedInSearchParams_def opt_str_def
  py_split_def attr_get_def max_retries_def world0_def

lemmas board_defs =
  board_env_def network_def listing_soup_def listing_tag_def empty_soup_def acme_page_def
  no_tag_def

lemma neq_urls [simp]:
  "search_url \<noteq> detail_url j" "detail_url j \<noteq> search_url"
  by (auto simp: search_url_def detail_url_def)

lemma detail_url_inj [simp]: "(detail_url a = detail_url b) = (a = b)"
  by (simp add: detail_url_def)

lemma acme_page_record:
  "fst (job_page_of_response ascii_lower job_id (Inr \<lparr>status_code = 200, body = acme_page\<rparr>)) =
     Some (acme_record job_id)"
  by (simp add: linkedin_page_defs acme_page_def acme_record_def empty_soup_def no_tag_def)

section \<open>The claims\<close>

subsection \<open>The retry loop\<close>

text \<open>
  Claim C2, as stated, fails: a detail fetch can succeed and still give no record. When
  every reply is a 200 whose company link has no \<^verbatim>\<open>href\<close>, no fetch fails (\<open>k = 0\<close>, and
  \<open>0 < 3\<close>), the extraction raises at each of the three attempts, and the identifier is
  dropped.
\<close>

theorem fetch_succeeds_without_record_counterexample:
  "fetch_failed (reply hrefless_board 0 (detail_url ''1001'') []) = False \<and>
   fst (resolve_job hrefless_board max_retries ''1001'' world0) = None \<and>
   sent (snd (resolve_job hrefless_board max_retries ''1001'' world0)) =
     [(detail_url ''1001'', []), (detail_url ''1001'', []), (detail_url ''1001'', [])]"
  by (simp add: fetch_failed_def hrefless_board_def network_def resolve_job_def max_retries_def
        eval_nat_numeral scrape_job_page_def requests_get_def world0_def log_event_def
        linkedin_page_defs hrefless_page_def empty_soup_def no_tag_def)

text \<open>
  Claim C2, amended. Let the first \<open>k\<close> detail attempts of an identifier give no record
  (the request raises, the status is not 200, or the extraction raises on the reply) and
  let the next request be answered 200 with a page on which the extraction does not
  raise. With \<open>m\<close> attempts allowed (\<open>max_retries\<close>, 3 in the code), the retry loop gives a
  record if and only if \<open>k < m\<close>; the record is then the one extracted from that page, and
  exactly \<open>k + 1\<close> detail requests were sent, so it comes from attempt \<open>k + 1\<close>.
\<close>

theorem detail_resolves_iff_fewer_failures_than_attempts:
  assumes "\<forall>i<k. attempt_fails (reply env (length (sent w) + i) (detail_url job_id) [])"
    and "reply env (length (sent w) + k) (detail_url job_id) [] = Inr response"
    and "status_code response = 200"
    and "company_url_of (body response) = Inr company_url"
  shows "(fst (resolve_job env m job_id w) \<noteq> None \<longleftrightarrow> k < m) \<and>
         (k < m \<longrightarrow>
            fst (resolve_job env m job_id w) =
              Some (dict_update
                (with_description (body response)
                   [(''job_id'', PStr job_id),
                    (''title'', text_or_none (top_card_title (body response))),
                    (''company'', text_or_none (org_name_link (body response))),
                    (''location'', text_or_none (flavor_bullet (body response))),
                    (''posted'', text_or_none (posted_time_ago (body response))),
                    (''applicants'', text_or_none (num_applicants (body response))),
                    (''url'', PStr (''https://www.linkedin.com/jobs/view/'' @ job_id)),
                    (''company_url'', company_url)])
                (get_job_criteria (str_lower env) (body response))) \<and>
            sent (snd (resolve_job env m job_id w)) =
              sent w @ replicate (k + 1) (detail_url job_id, []))"
proof -
  have fails: "\<forall>i<k. detail_attempt env job_id (length (sent w) + i) = None"
    using assms(1) detail_attempt_fails by blast
  note got = detail_attempt_record[OF assms(2,3,4)]
  show ?thesis
  proof (cases "k < m")
    case True
    from attempt_loop_success[OF fails got True] show ?thesis
      using True by (simp add: resolve_job_fst resolve_job_sent)
  next
    case False
    then have "\<forall>i<m. detail_attempt env job_id (length (sent w) + i) = None"
      using fails by auto
    from attempt_loop_all_fail[OF this] show ?thesis
      using False by (simp add: resolve_job_fst)
  qed
qed

theorem detail_resolves_iff_fewer_failures_than_attempts_witness:
  "attempt_fails (reply fails_once 0 (detail_url ''1001'') []) \<and>
   fst (resolve_job fails_once max_retries ''1001'' world0) = Some (acme_record ''1001'') \<and>
   sent (snd (resolve_job fails_once max_retries ''1001'' world0)) =
     [(detail_url ''1001'', []), (detail_url ''1001'', [])]"
proof -
  have h1: "\<forall>i<1. attempt_fails (reply fails_once (length (sent world0) + i) (detail_url ''1001'') [])"
    by (simp add: world0_def fails_once_def network_def attempt_fails_def)
  have h2: "reply fails_once (length (sent world0) + 1) (detail_url ''1001'') [] =
      Inr \<lparr>status_code = 200, body = acme_page\<rparr>"
    by (simp add: world0_def fails_once_def network_def)
  have h3: "status_code \<lparr>status_code = 200, body = acme_page\<rparr> = 200"
    by simp
  have h4: "company_url_of (body \<lparr>status_code = 200, body = acme_page\<rparr>) =
      Inr (PStr ''https://www.linkedin.com/company/acme'')"
    by (simp add: company_url_of_def acme_page_def empty_soup_def no_tag_def attr_index_def)
  have l: "str_lower fails_once = ascii_lower"
    by (simp add: fails_once_def network_def)
  from detail_resolves_iff_fewer_failures_than_attempts[OF h1 h2 h3 h4, of max_retries]
  show ?thesis
    using h1
    by (simp add: max_retries_def world0_def l acme_record_def acme_page_def empty_soup_def
          no_tag_def with_description_def get_job_criteria_def text_or_none_def
          criteria_entry_def replace_char_def ascii_lower_def lower_char_def)
qed

subsection \<open>Exhausted retries\<close>

lemma resolve_jobs_append:
  "resolve_jobs env (xs @ ys) w =
     (fst (resolve_jobs env xs w) @ fst (resolve_jobs env ys (snd (resolve_jobs env xs w))),
      snd (resolve_jobs env ys (snd (resolve_jobs env xs w))))"
  by (induction xs arbitrary: w) (auto split: prod.splits option.splits)

lemma resolve_job_exhausted:
  assumes "\<forall>i<m. detail_attempt env job_id (length (sent w) + i) = None"
  shows "fst (resolve_job env m job_id w) = None"
    and "logged (snd (resolve_job env m job_id w)) =
           logged (snd (attempt_loop env job_id m w)) @ [(WARNING, FailedAfterAttempts job_id m)]"
  using attempt_loop_all_fail[OF assms]
  by (auto simp: resolve_job_def log_event_def split: prod.splits option.splits)

lemma scrape_jobs_linkedin_resolved:
  "paginate env params (page_range (pages params)) [] w0 = (Inr ids, w) \<Longrightarrow>
   scrape_jobs_linkedin env params w0 =
     (Inr (fst (resolve_jobs env ids w)), snd (resolve_jobs env ids w))"
  by (simp add: scrape_jobs_linkedin_def split: prod.splits)

text \<open>
  Claim C6. In a run whose search pages gave the identifiers \<open>before @ job_id # after\<close>,
  let every one of the \<open>max_retries\<close> detail fetches of \<open>job_id\<close> fail. Then \<open>job_id\<close>
  gives no record, the last log line written for it is the warning
  \<^verbatim>\<open>Failed to scrape job ... after 3 attempts\<close>, and the run does not fail: it returns the
  records of the identifiers before it followed by those of the identifiers after it,
  which are resolved from the world the failed attempts left.
\<close>

theorem exhausted_identifier_dropped_run_continues:
  assumes "paginate env params (page_range (pages params)) [] w0 =
             (Inr (before @ job_id # after), w)"
    and "\<forall>i<max_retries.
           detail_attempt env job_id (length (sent (snd (resolve_jobs env before w))) + i) = None"
  shows "fst (resolve_job env max_retries job_id (snd (resolve_jobs env before w))) = None \<and>
         last (logged (snd (resolve_job env max_retries job_id (snd (resolve_jobs env before w))))) =
           (WARNING, FailedAfterAttempts job_id max_retries) \<and>
         fst (scrape_jobs_linkedin env params w0) =
           Inr (fst (resolve_jobs env before w) @
                fst (resolve_jobs env after
                       (snd (resolve_job env max_retries job_id (snd (resolve_jobs env before w))))))"
proof -
  let ?w1 = "snd (resolve_jobs env before w)"
  let ?w2 = "snd (resolve_job env max_retries job_id ?w1)"
  have none: "fst (resolve_job env max_retries job_id ?w1) = None"
    using resolve_job_exhausted(1)[OF assms(2)] .
  have warn: "last (logged ?w2) = (WARNING, FailedAfterAttempts job_id max_retries)"
    using resolve_job_exhausted(2)[OF assms(2)] by simp
  have step: "fst (resolve_jobs env (job_id # after) ?w1) = fst (resolve_jobs env after ?w2)"
    using none by (cases "resolve_job env max_retries job_id ?w1") (auto split: prod.splits)
  have "fst (resolve_jobs env (before @ job_id # after) w) =
          fst (resolve_jobs env before w) @ fst (resolve_jobs env after ?w2)"
    by (simp only: resolve_jobs_append fst_conv step)
  then have run: "fst (scrape_jobs_linkedin env params w0) =
          Inr (fst (resolve_jobs env before w) @ fst (resolve_jobs env after ?w2))"
    using scrape_jobs_linkedin_resolved[OF assms(1)] by simp
  from none warn run show ?thesis by simp
qed


lemma paginate_scenario_b:
  "paginate scenario_b data_scientist (page_range (pages data_scientist)) [] world0 =
     (Inr [''1001'', ''1002''],
      \<lparr>sent = [(search_url, request_params data_scientist 0)], logged = []\<rparr>)"
  by (simp add: scenario_b_def data_scientist_def linkedin_run_defs board_defs)

lemma detail_attempt_scenario_b_1002: "detail_attempt scenario_b ''1002'' n = None"
  by (simp add: detail_attempt_def scenario_b_def board_defs job_page_of_response_def)

lemma resolve_scenario_b_1001:
  "fst (resolve_jobs scenario_b [''1001''] w) =
     [acme_record ''1001'']"
  by (simp add: scenario_b_def linkedin_run_defs board_defs linkedin_page_defs eval_nat_numeral
        acme_record_def split: prod.splits)

theorem exhausted_identifier_dropped_run_continues_witness:
  "fst (scrape_jobs_linkedin scenario_b data_scientist world0) =
     Inr [acme_record ''1001''] \<and>
   fst (resolve_job scenario_b max_retries ''1002''
          (snd (resolve_jobs scenario_b [''1001'']
             \<lparr>sent = [(search_url, request_params data_scientist 0)], logged = []\<rparr>))) = None"
proof -
  have h1: "paginate scenario_b data_scientist (page_range (pages data_scientist)) [] world0 =
     (Inr ([''1001''] @ ''1002'' # []),
      \<lparr>sent = [(search_url, request_params data_scientist 0)], logged = []\<rparr>)"
    by (simp add: paginate_scenario_b)
  have h2: "\<forall>i<max_retries. detail_attempt scenario_b ''1002''
      (length (sent (snd (resolve_jobs scenario_b [''1001'']
         \<lparr>sent = [(search_url, request_params data_scientist 0)], logged = []\<rparr>))) + i) = None"
    by (simp add: detail_attempt_scenario_b_1002)
  from exhausted_identifier_dropped_run_continues[OF h1 h2]
  show ?thesis by (simp add: resolve_scenario_b_1001 del: resolve_jobs.simps(2))
qed
subsection \<open>A search page that cannot be fetched\<close>

lemma paginate_append:
  "paginate env params (xs @ ys) job_ids w =
     (case paginate env params xs job_ids w of
        (Inl e, w1) \<Rightarrow> (Inl e, w1)
      | (Inr job_ids', w1) \<Rightarrow> paginate env params ys job_ids' w1)"
  by (induction xs arbitrary: job_ids w) (auto split: prod.splits sum.splits)

lemma paginate_failed_page:
  assumes "fetch_failed (reply env (length (sent w)) search_url (request_params params page))"
  shows "\<exists>e. fst (paginate env params (page # rest) job_ids w) = Inl (HTTPException 500 (StrOf e))"
  using assms
  by (auto simp: fetch_failed_def requests_get_def listing_page_try_def
      split: sum.splits prod.splits)

lemma page_range_split:
  "p < nat n \<Longrightarrow> page_range n = [0..<p] @ p # [Suc p..<nat n]"
  unfolding page_range_def
  by (metis less_imp_add_positive upt_add_eq_append upt_conv_Cons less_eq_nat.simps(1) upt_rec)

lemma paginate_stops_at_failed_page:
  assumes "p < nat (pages params)"
    and "fst (paginate env params [0..<p] [] w) = Inr ids"
    and "fetch_failed (reply env (length (sent (snd (paginate env params [0..<p] [] w))))
            search_url (request_params params p))"
  shows "\<exists>e. fst (paginate env params (page_range (pages params)) [] w) =
           Inl (HTTPException 500 (StrOf e))"
proof -
  obtain w1 where p: "paginate env params [0..<p] [] w = (Inr ids, w1)"
    using assms(2) by (cases "paginate env params [0..<p] [] w") auto
  from assms(3) p have "fetch_failed (reply env (length (sent w1)) search_url (request_params params p))"
    by simp
  from paginate_failed_page[of env w1 params p "[Suc p..<nat (pages params)]" ids] this
  show ?thesis
    by (simp only: page_range_split[OF assms(1)] paginate_append p prod.case sum.case)
qed

lemma scrape_linkedin_jobs_fatal:
  "fst (paginate env params (page_range (pages params)) [] w) = Inl e \<Longrightarrow>
   fst (scrape_linkedin_jobs env params w) =
     Inl (HTTPException 500 (Prefixed ''LinkedIn scraping failed: '' e))"
  by (cases "paginate env params (page_range (pages params)) [] w")
     (auto simp: scrape_linkedin_jobs_def scrape_jobs_linkedin_def)

lemma str_nat_digits [simp]: "str_nat 0 = ''0''" "str_nat (Suc 0) = ''1''" "str_nat 2 = ''2''"
  by (simp_all add: str_nat.simps)

lemmas indeed_run_defs =
  scrape_indeed_jobs_def scrape_indeed_def PAGES_TO_SCRAPE_def driver_get_def print_line_def
  browser0_def

lemma scrape_indeed_listing_blocked:
  assumes "driver_start env = None"
    and "navigate env (tick b) (listing_url filters 0) = Inl e"
  shows "fst (scrape_indeed env filters b) = Inr []"
  using assms by (simp add: scrape_indeed_def PAGES_TO_SCRAPE_def driver_get_def print_line_def)

text \<open>
  Claim C3, as stated, fails for Indeed: \<^verbatim>\<open>scrape_indeed\<close> catches the exception of
  \<^verbatim>\<open>driver.get\<close> on the listing page, prints \<^verbatim>\<open>Scraping interrupted\<close> and returns the
  listings collected so far, which the endpoint returns as a successful response.
\<close>

theorem listing_failure_fatal_counterexample:
  "navigate blocked_browser (tick browser0)
     (listing_url (indeed_filters (IndeedSearchParams ''Data Scientist'')) 0) =
     Inl (LibraryError ''net::ERR_CONNECTION_RESET'') \<and>
   fst (scrape_indeed_jobs blocked_browser (IndeedSearchParams ''Data Scientist'') browser0) =
     Inr \<lparr>success = True, message = ''Found 0 Indeed jobs'', count = 0, data = []\<rparr>"
  by (simp add: indeed_run_defs blocked_browser_def)

text \<open>
  Claim C3, amended. On LinkedIn a fetch failure on a search page is fatal to the run:
  when the pages before page \<open>p\<close> were read and the fetch of page \<open>p\<close> fails, the caller
  gets an \<^verbatim>\<open>HTTPException\<close> with status 500 and no response. On Indeed an exception of
  \<^verbatim>\<open>driver.get\<close> on the listing page is caught inside the run, which returns a successful
  response with the listings collected before it (none, the listing page being the
  only one).
\<close>

theorem listing_failure_fatal_on_linkedin_caught_on_indeed:
  "(p < nat (pages params) \<and>
    fst (paginate env params [0..<p] [] w) = Inr ids \<and>
    fetch_failed (reply env (length (sent (snd (paginate env params [0..<p] [] w))))
       search_url (request_params params p)) \<longrightarrow>
    (\<exists>e. fst (scrape_linkedin_jobs env params w) =
       Inl (HTTPException 500
              (Prefixed ''LinkedIn scraping failed: '' (HTTPException 500 (StrOf e)))))) \<and>
   (driver_start ienv = None \<and>
    navigate ienv (tick b) (listing_url (indeed_filters iparams) 0) = Inl e' \<longrightarrow>
    fst (scrape_indeed_jobs ienv iparams b) =
      Inr \<lparr>success = True, message = ''Found 0 Indeed jobs'', count = 0, data = []\<rparr>)"
proof (intro conjI impI)
  assume a: "p < nat (pages params) \<and>
    fst (paginate env params [0..<p] [] w) = Inr ids \<and>
    fetch_failed (reply env (length (sent (snd (paginate env params [0..<p] [] w))))
       search_url (request_params params p))"
  then obtain e where
    "fst (paginate env params (page_range (pages params)) [] w) = Inl (HTTPException 500 (StrOf e))"
    using paginate_stops_at_failed_page[of p params env w ids] by blast
  from scrape_linkedin_jobs_fatal[OF this]
  show "\<exists>e. fst (scrape_linkedin_jobs env params w) =
       Inl (HTTPException 500
              (Prefixed ''LinkedIn scraping failed: '' (HTTPException 500 (StrOf e))))"
    by blast
next
  assume a: "driver_start ienv = None \<and>
    navigate ienv (tick b) (listing_url (indeed_filters iparams) 0) = Inl e'"
  then have "fst (scrape_indeed ienv (indeed_filters iparams) b) = Inr []"
    using scrape_indeed_listing_blocked by blast
  then show "fst (scrape_indeed_jobs ienv iparams b) =
      Inr \<lparr>success = True, message = ''Found 0 Indeed jobs'', count = 0, data = []\<rparr>"
    by (cases "scrape_indeed ienv (indeed_filters iparams) b")
       (simp add: scrape_indeed_jobs_def)
qed

theorem listing_failure_fatal_on_linkedin_caught_on_indeed_witness:
  "(\<exists>e. fst (scrape_linkedin_jobs blocked_board data_scientist world0) =
       Inl (HTTPException 500
              (Prefixed ''LinkedIn scraping failed: '' (HTTPException 500 (StrOf e))))) \<and>
   fst (scrape_indeed_jobs blocked_browser (IndeedSearchParams ''Data Scientist'') browser0) =
     Inr \<lparr>success = True, message = ''Found 0 Indeed jobs'', count = 0, data = []\<rparr>"
proof -
  have h1: "0 < nat (pages data_scientist) \<and>
    fst (paginate blocked_board data_scientist [0..<0] [] world0) = Inr [] \<and>
    fetch_failed (reply blocked_board
       (length (sent (snd (paginate blocked_board data_scientist [0..<0] [] world0))))
       search_url (request_params data_scientist 0))"
    by (simp add: data_scientist_def LinkedInSearchParams_def fetch_failed_def blocked_board_def
          network_def)
  have h2: "driver_start blocked_browser = None \<and>
    navigate blocked_browser (tick browser0)
      (listing_url (indeed_filters (IndeedSearchParams ''Data Scientist'')) 0) =
      Inl (LibraryError ''net::ERR_CONNECTION_RESET'')"
    by (simp add: blocked_browser_def)
  from listing_failure_fatal_on_linkedin_caught_on_indeed
         [of 0 data_scientist blocked_board world0 "[]" blocked_browser browser0
             "IndeedSearchParams ''Data Scientist''" "LibraryError ''net::ERR_CONNECTION_RESET''"]
       h1 h2
  show ?thesis by blast
qed


subsection \<open>The simulated interaction\<close>

lemma randint_bounds: "a \<le> b \<Longrightarrow> a \<le> randint a b r \<and> randint a b r \<le> b"
proof -
  assume ab: "a \<le> b"
  then have pos: "0 < nat (b - a + 1)" by simp
  have "r mod nat (b - a + 1) < nat (b - a + 1)"
    using pos by (rule mod_less_divisor)
  then have "int (r mod nat (b - a + 1)) < b - a + 1" using ab by linarith
  then show ?thesis by (simp add: randint_def)
qed

lemma move_loop_counts:
  "length (moved (move_loop env n b)) = length (moved b) + n \<and>
   body_lookups (move_loop env n b) = body_lookups b"
  by (induction n arbitrary: b) (auto simp: Let_def split: option.splits)

lemma scroll_loop_counts:
  "moved (scroll_loop env n b) = moved b \<and>
   body_lookups (scroll_loop env n b) = body_lookups b + n"
  by (induction n arbitrary: b) (auto simp: scroll_try_def Let_def split: option.splits prod.splits)

text \<open>
  What holds of the function: when the first move does not raise, nothing raised in the
  two loops leaves it, whatever the browser does, and it makes between 2 and 4 further
  moves and between 3 and 5 scroll attempts.
\<close>

lemma human_like_interaction_loops_swallow:
  assumes "perform env (tick b) = None"
  shows "fst (human_like_interaction env b) = None"
    and "length (moved b) + 3 \<le> length (moved (snd (human_like_interaction env b)))"
    and "length (moved (snd (human_like_interaction env b))) \<le> length (moved b) + 5"
    and "body_lookups b + 3 \<le> body_lookups (snd (human_like_interaction env b))"
    and "body_lookups (snd (human_like_interaction env b)) \<le> body_lookups b + 5"
proof -
  let ?b1 = "b\<lparr>tick := tick b + 1, moved := moved b @ [(10, 10)]\<rparr>"
  let ?m = "nat (randint 2 4 (random_draw env (tick ?b1)))"
  let ?b2 = "move_loop env ?m (?b1\<lparr>tick := tick ?b1 + 1\<rparr>)"
  let ?s = "nat (randint 3 5 (random_draw env (tick ?b2)))"
  let ?b3 = "scroll_loop env ?s (?b2\<lparr>tick := tick ?b2 + 1\<rparr>)"
  have r: "human_like_interaction env b = (None, ?b3)"
    using assms by (simp add: human_like_interaction_def Let_def)
  have m: "2 \<le> ?m \<and> ?m \<le> 4"
    using randint_bounds[of 2 4 "random_draw env (tick ?b1)"] by linarith
  have s: "3 \<le> ?s \<and> ?s \<le> 5"
    using randint_bounds[of 3 5 "random_draw env (tick ?b2)"] by linarith
  have mv: "length (moved ?b3) = length (moved b) + 1 + ?m"
    using scroll_loop_counts[of env ?s "?b2\<lparr>tick := tick ?b2 + 1\<rparr>"]
          move_loop_counts[of env ?m "?b1\<lparr>tick := tick ?b1 + 1\<rparr>"]
    by simp
  have bl: "body_lookups ?b3 = body_lookups b + ?s"
    using scroll_loop_counts[of env ?s "?b2\<lparr>tick := tick ?b2 + 1\<rparr>"]
          move_loop_counts[of env ?m "?b1\<lparr>tick := tick ?b1 + 1\<rparr>"]
    by simp
  show "fst (human_like_interaction env b) = None" by (simp add: r)
  show "length (moved b) + 3 \<le> length (moved (snd (human_like_interaction env b)))"
    unfolding r snd_conv mv using m by linarith
  show "length (moved (snd (human_like_interaction env b))) \<le> length (moved b) + 5"
    unfolding r snd_conv mv using m by linarith
  show "body_lookups b + 3 \<le> body_lookups (snd (human_like_interaction env b))"
    unfolding r snd_conv bl using s by linarith
  show "body_lookups (snd (human_like_interaction env b)) \<le> body_lookups b + 5"
    unfolding r snd_conv bl using s by linarith
qed

text \<open>
  Claim C9 on the code. The number of iterations is bounded, and what the two loops
  raise is swallowed (the lemma above). The move by (10, 10) at the start of the
  function is outside every \<^verbatim>\<open>try\<close>: when it raises, the exception leaves
  \<^verbatim>\<open>human_like_interaction\<close>, and in \<^verbatim>\<open>scrape_indeed\<close> it ends the scraping of the page.
\<close>

theorem first_move_exception_escapes:
  "fst (human_like_interaction stuck_pointer browser0) =
     Some (LibraryError ''MoveTargetOutOfBoundsException'') \<and>
   printed (snd (scrape_indeed stuck_pointer [] browser0)) =
     [Starting [], ScrapingInterrupted (LibraryError ''MoveTargetOutOfBoundsException''),
      TotalJobsCollected 0]"
  by (simp add: human_like_interaction_def stuck_pointer_def indeed_run_defs Let_def)


subsection \<open>The query of a keyword-only search\<close>

lemma str_nat_chars: "set (str_nat n) \<subseteq> set ''0123456789''"
proof (induction n rule: str_nat.induct)
  case (1 n)
  have d: "\<And>k. k < 10 \<Longrightarrow> ''0123456789'' ! k \<in> set ''0123456789''"
    by (rule nth_mem) simp
  show ?case
  proof (cases "n < 10")
    case True
    with d[of n] show ?thesis by (subst str_nat.simps) simp
  next
    case False
    have "n mod 10 < 10" by simp
    from d[OF this] 1[OF False] False show ?thesis by (subst str_nat.simps) simp
  qed
qed

lemma quote_plus_unreserved: "\<forall>c\<in>set s. unreserved c \<Longrightarrow> quote_plus s = s"
  by (induction s) (auto simp: quote_plus_def quote_char_def)

lemma quote_plus_str_nat: "quote_plus (str_nat n) = str_nat n"
proof (rule quote_plus_unreserved, rule ballI)
  fix c assume "c \<in> set (str_nat n)"
  with str_nat_chars[of n] have "c \<in> set ''0123456789''" by blast
  then show "unreserved c" by (auto simp: unreserved_def)
qed

lemma str_int_nat: "str_int (int n) = str_nat n"
  by (simp add: str_int_def)

lemma quote_plus_keys:
  "quote_plus ''q'' = ''q''" "quote_plus ''fromage'' = ''fromage''"
  "quote_plus ''radius'' = ''radius''" "quote_plus ''jt'' = ''jt''"
  "quote_plus ''sort'' = ''sort''" "quote_plus ''start'' = ''start''"
  "quote_plus ''fulltime'' = ''fulltime''" "quote_plus ''date'' = ''date''"
  "quote_plus ''keywords'' = ''keywords''" "quote_plus ''pages'' = ''pages''"
  "quote_plus ''7'' = ''7''" "quote_plus ''50'' = ''50''" "quote_plus ''1'' = ''1''"
  by (simp_all add: quote_plus_def quote_char_def unreserved_def)

lemma small_numbers: "str_nat 7 = ''7''" "str_nat 50 = ''50''"
  by (simp_all add: str_nat.simps)

lemma hex_value_hex_digit: "d < 16 \<Longrightarrow> hex_value (hex_digit d) = d"
proof -
  assume "d < 16"
  then have "d = 0 \<or> d = 1 \<or> d = 2 \<or> d = 3 \<or> d = 4 \<or> d = 5 \<or> d = 6 \<or> d = 7 \<or> d = 8 \<or>
             d = 9 \<or> d = 10 \<or> d = 11 \<or> d = 12 \<or> d = 13 \<or> d = 14 \<or> d = 15" by arith
  then show ?thesis by (elim disjE) (simp_all add: hex_value_def hex_digit_def)
qed

lemma of_char_bound: "(of_char (c :: char) :: nat) < 256"
  by (metis (no_types) of_char_mod_256 mod_less_divisor zero_less_numeral)

lemma char_of_hex: "char_of (hex_value (hex_digit ((of_char c :: nat) div 16)) * 16 +
                      hex_value (hex_digit ((of_char c :: nat) mod 16))) = c"
proof -
  have "(of_char c :: nat) div 16 < 16" using of_char_bound[of c] by arith
  then show ?thesis by (simp add: hex_value_hex_digit)
qed

lemma url_decode_quote_char: "url_decode (quote_char c @ rest) = c # url_decode rest"
proof (cases "unreserved c")
  case True
  then have "c \<noteq> CHR ''+''" "c \<noteq> CHR ''%''" by (auto simp: unreserved_def)
  with True show ?thesis by (simp add: quote_char_def)
next
  case False
  show ?thesis
  proof (cases "c = CHR '' ''")
    case True
    with False show ?thesis by (simp add: quote_char_def)
  next
    case sp: False
    with False show ?thesis by (simp add: quote_char_def char_of_hex)
  qed
qed

lemma url_decode_quote_plus: "url_decode (quote_plus s @ rest) = s @ url_decode rest"
  by (induction s) (simp_all add: quote_plus_def url_decode_quote_char)

lemma hex_digit_safe: "d < 16 \<Longrightarrow> unreserved (hex_digit d)"
proof -
  assume "d < 16"
  then have "d = 0 \<or> d = 1 \<or> d = 2 \<or> d = 3 \<or> d = 4 \<or> d = 5 \<or> d = 6 \<or> d = 7 \<or> d = 8 \<or>
             d = 9 \<or> d = 10 \<or> d = 11 \<or> d = 12 \<or> d = 13 \<or> d = 14 \<or> d = 15" by arith
  then show ?thesis by (elim disjE) (simp_all add: unreserved_def hex_digit_def)
qed

lemma quote_char_alphabet:
  "set (quote_char c) \<subseteq> {x. unreserved x} \<union> {CHR ''+'', CHR ''%''}"
proof -
  have "(of_char c :: nat) div 16 < 16" using of_char_bound[of c] by arith
  moreover have "(of_char c :: nat) mod 16 < 16" by simp
  ultimately show ?thesis
    by (auto simp: quote_char_def hex_digit_safe)
qed

lemma quote_plus_alphabet:
  "set (quote_plus s) \<subseteq> {x. unreserved x} \<union> {CHR ''+'', CHR ''%''}"
  using quote_char_alphabet by (induction s) (auto simp: quote_plus_def)

text \<open>
  Claim C8, as stated, fails. With only the keyword set
  (\<^verbatim>\<open>IndeedSearchParams(job_title="Data Scientist")\<close>), the address Indeed is asked for
  carries \<^verbatim>\<open>fromage\<close>, \<^verbatim>\<open>radius\<close>, \<^verbatim>\<open>jt\<close> and \<^verbatim>\<open>sort\<close>, four filters the caller left absent:
  their fields default to a value, not to \<^verbatim>\<open>None\<close>. On LinkedIn the query carries \<^verbatim>\<open>pages\<close>
  in the same way.
\<close>

theorem keyword_only_query_counterexample:
  "listing_url (indeed_filters (IndeedSearchParams ''Data Scientist'')) 0 =
     ''https://in.indeed.com/jobs?q=Data+Scientist&fromage=7&radius=50&jt=fulltime&sort=date&start=0'' \<and>
   requests_query (request_params (LinkedInSearchParams ''Data Scientist'') 0) =
     ''keywords=Data+Scientist&pages=1&start=0''"
  by (simp add: listing_url_def indeed_filters_def IndeedSearchParams_def opt_str_def
        opt_int_def urlencode_def py_str_def str_int_def small_numbers BASE_URL_def
        requests_query_def request_params_def params_dict_def LinkedInSearchParams_def
        quote_plus_def quote_char_def unreserved_def)

text \<open>
  Claim C8, amended. A filter set with only the keyword set is
  \<^verbatim>\<open>IndeedSearchParams(job_title=kw)\<close> or \<^verbatim>\<open>LinkedInSearchParams(keywords=kw)\<close>, the other fields at
  their defaults. The address Indeed is asked for carries the keyword URL-encoded under
  \<^verbatim>\<open>q\<close>, the four filters whose default is a value (\<^verbatim>\<open>fromage=7\<close>, \<^verbatim>\<open>radius=50\<close>,
  \<^verbatim>\<open>jt=fulltime\<close>, \<^verbatim>\<open>sort=date\<close>) and \<^verbatim>\<open>start\<close>; it has no parameter for \<^verbatim>\<open>l\<close>, \<^verbatim>\<open>explvl\<close> or
  \<^verbatim>\<open>remote\<close>, whose value is \<^verbatim>\<open>None\<close>. The query \<^verbatim>\<open>requests\<close> sends to LinkedIn carries the
  keyword URL-encoded under \<^verbatim>\<open>keywords\<close>, \<^verbatim>\<open>pages=1\<close> and \<^verbatim>\<open>start\<close>, and no parameter for the
  five filters whose value is \<^verbatim>\<open>None\<close>. The encoding of the keyword is decoded back to the
  keyword; it is written with letters, digits, \<^verbatim>\<open>_.-~\<close>, \<^verbatim>\<open>+\<close> and \<^verbatim>\<open>%\<close> only, so that it adds
  no parameter of its own; the letters, digits and \<^verbatim>\<open>_.-~\<close> of a keyword are kept as they
  are; \<^verbatim>\<open>C++ & Data Science\<close> is sent as \<^verbatim>\<open>C%2B%2B+%26+Data+Science\<close>.
\<close>

theorem keyword_only_query_carries_defaulted_filters:
  "listing_url (indeed_filters (IndeedSearchParams kw)) page =
     ''https://in.indeed.com/jobs?q='' @ quote_plus kw @
       ''&fromage=7&radius=50&jt=fulltime&sort=date&start='' @ str_nat (page * 10) \<and>
   requests_query (request_params (LinkedInSearchParams kw) page) =
     ''keywords='' @ quote_plus kw @ ''&pages=1&start='' @ str_nat (page * 25) \<and>
   url_decode (quote_plus kw) = kw \<and>
   set (quote_plus kw) \<subseteq>
     set ''ABCDEFGHIJKLMNOPQRSTUVWXYZabcdefghijklmnopqrstuvwxyz0123456789_.-~'' \<union>
     {CHR ''+'', CHR ''%''} \<and>
   quote_plus (filter unreserved kw) = filter unreserved kw \<and>
   quote_plus ''C++ & Data Science'' = ''C%2B%2B+%26+Data+Science''"
proof (intro conjI)
  have "nat (int page * 10) = page * 10" by (simp add: nat_mult_distrib)
  then show "listing_url (indeed_filters (IndeedSearchParams kw)) page =
     ''https://in.indeed.com/jobs?q='' @ quote_plus kw @
       ''&fromage=7&radius=50&jt=fulltime&sort=date&start='' @ str_nat (page * 10)"
    by (simp add: listing_url_def indeed_filters_def IndeedSearchParams_def opt_str_def
          opt_int_def urlencode_def py_str_def quote_plus_keys quote_plus_str_nat
          str_int_def small_numbers BASE_URL_def)
  have "nat (int page * 25) = page * 25" by (simp add: nat_mult_distrib)
  then show "requests_query (request_params (LinkedInSearchParams kw) page) =
     ''keywords='' @ quote_plus kw @ ''&pages=1&start='' @ str_nat (page * 25)"
    by (simp add: requests_query_def request_params_def params_dict_def
          LinkedInSearchParams_def opt_str_def urlencode_def py_str_def quote_plus_keys
          quote_plus_str_nat str_int_def small_numbers)
  show "url_decode (quote_plus kw) = kw"
    using url_decode_quote_plus[of kw "[]"] by simp
  show "set (quote_plus kw) \<subseteq>
     set ''ABCDEFGHIJKLMNOPQRSTUVWXYZabcdefghijklmnopqrstuvwxyz0123456789_.-~'' \<union>
     {CHR ''+'', CHR ''%''}"
    using quote_plus_alphabet[of kw] unfolding unreserved_def by (simp only: Collect_mem_eq)
  show "quote_plus (filter unreserved kw) = filter unreserved kw"
    by (rule quote_plus_unreserved) simp
  show "quote_plus ''C++ & Data Science'' = ''C%2B%2B+%26+Data+Science''"
    by (simp add: quote_plus_def quote_char_def unreserved_def hex_digit_def)
qed

subsection \<open>The pages fetched\<close>

lemma listing_ids_read:
  "list_all (\<lambda>job. base_card job \<noteq> None) items \<Longrightarrow> \<exists>ids. listing_ids items acc = Inr ids"
  by (induction items arbitrary: acc) (auto simp: Let_def)

lemma listing_ids_not_read:
  "\<not> list_all (\<lambda>job. base_card job \<noteq> None) items \<Longrightarrow> \<exists>e. listing_ids items acc = Inl e"
proof (induction items arbitrary: acc)
  case Nil
  then show ?case by simp
next
  case (Cons job items)
  show ?case
  proof (cases "base_card job")
    case None
    then show ?thesis by simp
  next
    case (Some base)
    with Cons.prems have "\<not> list_all (\<lambda>job. base_card job \<noteq> None) items" by simp
    from Cons.IH[OF this] Some show ?thesis by (simp add: Let_def)
  qed
qed

lemma paginate_page_read:
  assumes "page_reads (reply env (length (sent w)) search_url (request_params params page))"
  shows "\<exists>ids' w1. paginate env params (page # rest) acc w = paginate env params rest ids' w1 \<and>
           sent w1 = sent w @ [search_request params page]"
proof -
  from assms obtain response where
    r: "reply env (length (sent w)) search_url (request_params params page) = Inr response"
    and s: "status_code response = 200"
    and l: "list_all (\<lambda>job. base_card job \<noteq> None) (list_items (body response))"
    by (auto simp: page_reads_def split: sum.splits)
  from listing_ids_read[OF l] obtain ids where
    i: "listing_ids (list_items (body response)) acc = Inr ids" by blast
  let ?w1 = "w\<lparr>sent := sent w @ [search_request params page]\<rparr>"
  have "paginate env params (page # rest) acc w = paginate env params rest ids ?w1"
    using r s i by (simp add: requests_get_def listing_page_try_def search_request_def)
  moreover have "sent ?w1 = sent w @ [search_request params page]" by simp
  ultimately show ?thesis by blast
qed

lemma paginate_page_not_read:
  assumes "\<not> page_reads (reply env (length (sent w)) search_url (request_params params page))"
  shows "\<exists>e w1. paginate env params (page # rest) acc w = (Inl (HTTPException 500 (StrOf e)), w1) \<and>
           sent w1 = sent w @ [search_request params page]"
proof (cases "reply env (length (sent w)) search_url (request_params params page)")
  case (Inl e)
  then show ?thesis
    by (simp add: requests_get_def listing_page_try_def search_request_def log_event_def)
next
  case (Inr response)
  show ?thesis
  proof (cases "status_code response = 200")
    case True
    with assms Inr have "\<not> list_all (\<lambda>job. base_card job \<noteq> None) (list_items (body response))"
      by (simp add: page_reads_def)
    from listing_ids_not_read[OF this] obtain e where
      "listing_ids (list_items (body response)) acc = Inl e" by blast
    with Inr True show ?thesis
      by (simp add: requests_get_def listing_page_try_def search_request_def log_event_def)
  next
    case False
    with Inr show ?thesis
      by (simp add: requests_get_def listing_page_try_def search_request_def log_event_def)
  qed
qed

lemma paginate_all_read:
  "\<forall>i<length ps. page_reads (reply env (length (sent w) + i) search_url
                                (request_params params (ps ! i))) \<Longrightarrow>
   \<exists>ids w1. paginate env params ps acc w = (Inr ids, w1) \<and>
             sent w1 = sent w @ map (search_request params) ps"
proof (induction ps arbitrary: acc w)
  case Nil
  show ?case by simp
next
  case (Cons page rest)
  from Cons.prems[rule_format, of 0]
  have "page_reads (reply env (length (sent w)) search_url (request_params params page))"
    by simp
  from paginate_page_read[OF this, of rest acc] obtain ids' w1 where
    st: "paginate env params (page # rest) acc w = paginate env params rest ids' w1"
    and se: "sent w1 = sent w @ [search_request params page]" by blast
  have "\<forall>i<length rest. page_reads (reply env (length (sent w1) + i) search_url
                                (request_params params (rest ! i)))"
  proof (intro allI impI)
    fix i assume "i < length rest"
    with Cons.prems[rule_format, of "Suc i"] se
    show "page_reads (reply env (length (sent w1) + i) search_url
                                (request_params params (rest ! i)))"
      by simp
  qed
  from Cons.IH[OF this, of ids'] obtain ids w2 where
    "paginate env params rest ids' w1 = (Inr ids, w2)"
    "sent w2 = sent w1 @ map (search_request params) rest" by blast
  with st se show ?case by simp
qed

lemma paginate_first_not_read:
  assumes "p < nat (pages params)"
    and "\<forall>q<p. page_reads (reply env (length (sent w) + q) search_url (request_params params q))"
    and "\<not> page_reads (reply env (length (sent w) + p) search_url (request_params params p))"
  shows "\<exists>e w1. paginate env params (page_range (pages params)) [] w =
                   (Inl (HTTPException 500 (StrOf e)), w1) \<and>
                 sent w1 = sent w @ map (search_request params) [0..<Suc p]"
proof -
  have "\<forall>i<length [0..<p]. page_reads (reply env (length (sent w) + i) search_url
                                (request_params params ([0..<p] ! i)))"
    using assms(2) by simp
  from paginate_all_read[OF this, of "[]"] obtain ids w1 where
    a: "paginate env params [0..<p] [] w = (Inr ids, w1)"
    and s1: "sent w1 = sent w @ map (search_request params) [0..<p]" by blast
  from s1 assms(3)
  have "\<not> page_reads (reply env (length (sent w1)) search_url (request_params params p))"
    by simp
  from paginate_page_not_read[OF this, of "[Suc p..<nat (pages params)]" ids] obtain e w2 where
    b: "paginate env params (p # [Suc p..<nat (pages params)]) ids w1 =
          (Inl (HTTPException 500 (StrOf e)), w2)"
    and s2: "sent w2 = sent w1 @ [search_request params p]" by blast
  have "paginate env params (page_range (pages params)) [] w =
          (Inl (HTTPException 500 (StrOf e)), w2)"
    by (simp only: page_range_split[OF assms(1)] paginate_append a b prod.case sum.case)
  moreover have "sent w2 = sent w @ map (search_request params) [0..<Suc p]"
    using s1 s2 by simp
  ultimately show ?thesis by blast
qed

lemma attempt_loop_search_requests:
  "search_requests (snd (attempt_loop env job_id m w)) = search_requests w"
proof (induction m arbitrary: w)
  case 0
  show ?case by simp
next
  case (Suc m)
  obtain r w1 where sp: "scrape_job_page env job_id w = (r, w1)" by force
  have "sent w1 = sent w @ [(detail_url job_id, [])]"
    using scrape_job_page_sent[of env job_id w] sp by simp
  then have w1: "search_requests w1 = search_requests w"
    by (simp add: search_requests_def)
  show ?case
    using sp w1 Suc.IH[of w1]
    by (auto simp: search_requests_def log_event_def split: option.splits)
qed

lemma resolve_job_search_requests:
  "search_requests (snd (resolve_job env m job_id w)) = search_requests w"
  using attempt_loop_search_requests[of env job_id m w] resolve_job_sent[of env m job_id w]
  by (simp add: search_requests_def)

lemma resolve_jobs_search_requests:
  "search_requests (snd (resolve_jobs env ids w)) = search_requests w"
proof (induction ids arbitrary: w)
  case Nil
  show ?case by simp
next
  case (Cons a ids)
  obtain r w1 where s: "resolve_job env max_retries a w = (r, w1)" by force
  obtain rs w2 where t: "resolve_jobs env ids w1 = (rs, w2)" by force
  from resolve_job_search_requests[of env max_retries a w] s
  have "search_requests w1 = search_requests w" by simp
  with Cons.IH[of w1] s t show ?case by simp
qed

lemma search_requests_pages:
  "sent w1 = sent w @ map (search_request params) ps \<Longrightarrow>
   search_requests w1 = search_requests w @ map (search_request params) ps"
  by (simp add: search_requests_def search_request_def filter_id_conv)

lemma scrape_linkedin_jobs_all_read:
  assumes "\<forall>q<nat (pages params).
             page_reads (reply env (length (sent w) + q) search_url (request_params params q))"
  shows "search_requests (snd (scrape_linkedin_jobs env params w)) =
           search_requests w @ map (search_request params) [0..<nat (pages params)]"
    and "\<exists>resp. fst (scrape_linkedin_jobs env params w) = Inr resp"
proof -
  have "\<forall>i<length [0..<nat (pages params)].
          page_reads (reply env (length (sent w) + i) search_url
                        (request_params params ([0..<nat (pages params)] ! i)))"
    using assms by simp
  from paginate_all_read[OF this, of "[]"] obtain ids w1 where
    a: "paginate env params (page_range (pages params)) [] w = (Inr ids, w1)"
    and s1: "sent w1 = sent w @ map (search_request params) [0..<nat (pages params)]"
    unfolding page_range_def by blast
  obtain rs w2 where r: "resolve_jobs env ids w1 = (rs, w2)" by force
  from resolve_jobs_search_requests[of env ids w1] r
  have "search_requests w2 = search_requests w1" by simp
  with search_requests_pages[OF s1]
  have "search_requests w2 =
          search_requests w @ map (search_request params) [0..<nat (pages params)]" by simp
  with a r show "search_requests (snd (scrape_linkedin_jobs env params w)) =
           search_requests w @ map (search_request params) [0..<nat (pages params)]"
    by (simp add: scrape_linkedin_jobs_def scrape_jobs_linkedin_def)
  from a r show "\<exists>resp. fst (scrape_linkedin_jobs env params w) = Inr resp"
    by (simp add: scrape_linkedin_jobs_def scrape_jobs_linkedin_def)
qed

lemma scrape_linkedin_jobs_first_not_read:
  assumes "p < nat (pages params)"
    and "\<forall>q<p. page_reads (reply env (length (sent w) + q) search_url (request_params params q))"
    and "\<not> page_reads (reply env (length (sent w) + p) search_url (request_params params p))"
  shows "sent (snd (scrape_linkedin_jobs env params w)) =
           sent w @ map (search_request params) [0..<Suc p]"
    and "\<exists>e. fst (scrape_linkedin_jobs env params w) =
           Inl (HTTPException 500
                  (Prefixed ''LinkedIn scraping failed: '' (HTTPException 500 (StrOf e))))"
proof -
  from paginate_first_not_read[OF assms] obtain e w1 where
    a: "paginate env params (page_range (pages params)) [] w =
          (Inl (HTTPException 500 (StrOf e)), w1)"
    and s: "sent w1 = sent w @ map (search_request params) [0..<Suc p]" by blast
  from a s show "sent (snd (scrape_linkedin_jobs env params w)) =
           sent w @ map (search_request params) [0..<Suc p]"
    by (simp add: scrape_linkedin_jobs_def scrape_jobs_linkedin_def log_event_def)
  from a show "\<exists>e. fst (scrape_linkedin_jobs env params w) =
           Inl (HTTPException 500
                  (Prefixed ''LinkedIn scraping failed: '' (HTTPException 500 (StrOf e))))"
    by (simp add: scrape_linkedin_jobs_def scrape_jobs_linkedin_def)
qed

lemma move_loop_visited: "visited (move_loop env n b) = visited b"
  by (induction n arbitrary: b) (auto simp: Let_def split: option.splits)

lemma scroll_loop_visited: "visited (scroll_loop env n b) = visited b"
  by (induction n arbitrary: b) (auto simp: scroll_try_def Let_def split: option.splits prod.splits)

lemma human_like_interaction_visited:
  "visited (snd (human_like_interaction env b)) = visited b"
  by (simp add: human_like_interaction_def Let_def move_loop_visited scroll_loop_visited
      split: option.splits)

lemma human_like_interaction_raises:
  "fst (human_like_interaction env b) = perform env (tick b)"
  by (simp add: human_like_interaction_def Let_def split: option.splits)

lemma get_job_details_visited:
  "visited (snd (get_job_details env job_card b)) = visited b @ [card_url job_card]"
  by (simp add: get_job_details_def driver_get_def card_url_def Let_def split: sum.splits)

lemma cards_loop_visited:
  "visited (snd (cards_loop env cards job_listings b)) = visited b @ map card_url cards"
proof (induction cards arbitrary: job_listings b)
  case Nil
  show ?case by simp
next
  case (Cons c cards)
  obtain d b1 where g: "get_job_details env c b = (d, b1)" by force
  with get_job_details_visited[of env c b] have "visited b1 = visited b @ [card_url c]" by simp
  with Cons.IH[of "job_listings @ [d]" b1] g show ?case by simp
qed

lemma pages_loop_one_visited:
  "visited (snd (pages_loop env filters [0] [] b)) =
     visited b @ listing_url filters 0 #
       (case navigate env (tick b) (listing_url filters 0) of
          Inl e \<Rightarrow> []
        | Inr soup \<Rightarrow>
            (case perform env (tick b + 1) of
               Some e \<Rightarrow> []
             | None \<Rightarrow> map card_url (job_cards soup)))"
proof (cases "navigate env (tick b) (listing_url filters 0)")
  case (Inl e)
  then show ?thesis by (simp add: driver_get_def)
next
  case (Inr soup)
  let ?b1 = "b\<lparr>tick := tick b + 1, visited := visited b @ [listing_url filters 0]\<rparr>"
  obtain r b2 where h: "human_like_interaction env ?b1 = (r, b2)" by force
  with human_like_interaction_visited[of env ?b1]
  have v2: "visited b2 = visited b @ [listing_url filters 0]" by simp
  from h human_like_interaction_raises[of env ?b1]
  have r: "r = perform env (tick b + 1)" by simp
  show ?thesis
  proof (cases r)
    case (Some e)
    with r have pe: "perform env (tick b + 1) = Some e" by simp
    from Inr h v2 Some show ?thesis unfolding pe by (simp add: driver_get_def)
  next
    case None
    with r have pe: "perform env (tick b + 1) = None" by simp
    obtain jl b3 where c: "cards_loop env (job_cards soup) [] b2 = (jl, b3)" by force
    with cards_loop_visited[of env "job_cards soup" "[]" b2] v2
    have "visited b3 = visited b @ listing_url filters 0 # map card_url (job_cards soup)" by simp
    with Inr h None c show ?thesis unfolding pe by (simp add: driver_get_def print_line_def)
  qed
qed

lemma scrape_indeed_jobs_visited:
  assumes "driver_start env = None"
  shows "visited (snd (scrape_indeed_jobs env params b)) =
     visited b @ listing_url (indeed_filters params) 0 #
       (case navigate env (tick b) (listing_url (indeed_filters params) 0) of
          Inl e \<Rightarrow> []
        | Inr soup \<Rightarrow>
            (case perform env (tick b + 1) of
               Some e \<Rightarrow> []
             | None \<Rightarrow> map card_url (job_cards soup)))"
proof -
  let ?b0 = "print_line (Starting (indeed_filters params)) b"
  obtain raised jl b1 where p: "pages_loop env (indeed_filters params) [0] [] ?b0 = ((raised, jl), b1)"
    by (metis surj_pair)
  have t: "tick ?b0 = tick b" and v: "visited ?b0 = visited b"
    by (simp_all add: print_line_def)
  from pages_loop_one_visited[of env "indeed_filters params" ?b0, unfolded t v] p
  have "visited b1 = visited b @ listing_url (indeed_filters params) 0 #
       (case navigate env (tick b) (listing_url (indeed_filters params) 0) of
          Inl e \<Rightarrow> []
        | Inr soup \<Rightarrow>
            (case perform env (tick b + 1) of
               Some e \<Rightarrow> []
             | None \<Rightarrow> map card_url (job_cards soup)))"
    by simp
  then show ?thesis
    using assms p
    by (simp add: scrape_indeed_jobs_def scrape_indeed_def PAGES_TO_SCRAPE_def print_line_def
          split: option.splits)
qed

text \<open>
  Claim C7, as stated, fails. On LinkedIn a run asked for two pages stops after the
  first search request when that page cannot be fetched, and also when it is fetched
  (status 200) and one of its \<^verbatim>\<open>li\<close> has no \<^verbatim>\<open>div.base-card\<close>. On Indeed the request carries
  no page count: the run reads the one listing page that \<open>PAGES_TO_SCRAPE\<close> fixes.
\<close>

theorem requested_pages_counterexample:
  "pages two_pages = 2 \<and>
   sent (snd (scrape_linkedin_jobs blocked_board two_pages world0)) =
     [search_request two_pages 0] \<and>
   fetch_failed (reply cardless_board 0 search_url (request_params two_pages 0)) = False \<and>
   sent (snd (scrape_linkedin_jobs cardless_board two_pages world0)) =
     [search_request two_pages 0] \<and>
   visited (snd (scrape_indeed_jobs (site [] blank_page) (IndeedSearchParams ''Data Scientist'')
                   browser0)) =
     [listing_url (indeed_filters (IndeedSearchParams ''Data Scientist'')) 0]"
proof (intro conjI)
  show "pages two_pages = 2"
    by (simp add: two_pages_def)
  show "sent (snd (scrape_linkedin_jobs blocked_board two_pages world0)) =
     [search_request two_pages 0]"
    by (simp add: two_pages_def blocked_board_def network_def search_request_def
          linkedin_run_defs eval_nat_numeral)
  show "fetch_failed (reply cardless_board 0 search_url (request_params two_pages 0)) = False"
    by (simp add: fetch_failed_def cardless_board_def network_def)
  show "sent (snd (scrape_linkedin_jobs cardless_board two_pages world0)) =
     [search_request two_pages 0]"
    by (simp add: two_pages_def cardless_board_def network_def search_request_def
          linkedin_run_defs empty_soup_def eval_nat_numeral)
  show "visited (snd (scrape_indeed_jobs (site [] blank_page) (IndeedSearchParams ''Data Scientist'')
                   browser0)) =
     [listing_url (indeed_filters (IndeedSearchParams ''Data Scientist'')) 0]"
    by (simp add: indeed_run_defs site_def blank_page_def human_like_interaction_def Let_def
          move_loop_visited scroll_loop_visited split: prod.splits)
qed

text \<open>
  Claim C7, amended. A search page is read when it is fetched with status 200 and every
  \<^verbatim>\<open>li\<close> of it has its \<^verbatim>\<open>div.base-card\<close>. On LinkedIn, \<open>N\<close> being the page count of the
  caller: when each of the pages \<open>0, ..., N - 1\<close> is read, the run does not fail and its
  search requests are exactly those of the pages \<open>0, ..., N - 1\<close>, in order; when page \<open>p\<close>
  is the first one that is not read, the requests of the run are exactly those of the
  pages \<open>0, ..., p\<close> and the run fails with status 500. The request of a page carries
  \<^verbatim>\<open>start = 25 * page\<close>. On Indeed the caller supplies no page count: a run whose browser
  starts reads one listing page, that of \<^verbatim>\<open>start=0\<close>; when that page is loaded and the first
  pointer move does not raise it then reads the detail page of each card, in order, and
  nothing else.
\<close>

theorem search_pages_requested_while_read_indeed_one:
  "((\<forall>q<nat (pages params).
       page_reads (reply env (length (sent w) + q) search_url (request_params params q))) \<longrightarrow>
    search_requests (snd (scrape_linkedin_jobs env params w)) =
      search_requests w @ map (search_request params) [0..<nat (pages params)] \<and>
    (\<exists>resp. fst (scrape_linkedin_jobs env params w) = Inr resp)) \<and>
   (p < nat (pages params') \<and>
    (\<forall>q<p. page_reads (reply env' (length (sent w') + q) search_url (request_params params' q))) \<and>
    \<not> page_reads (reply env' (length (sent w') + p) search_url (request_params params' p)) \<longrightarrow>
    sent (snd (scrape_linkedin_jobs env' params' w')) =
      sent w' @ map (search_request params') [0..<Suc p] \<and>
    (\<exists>e. fst (scrape_linkedin_jobs env' params' w') =
       Inl (HTTPException 500
              (Prefixed ''LinkedIn scraping failed: '' (HTTPException 500 (StrOf e)))))) \<and>
   search_request params page =
     (''https://www.linkedin.com/jobs-guest/jobs/api/seeMoreJobPostings/search'',
      request_params params page) \<and>
   dict_get (request_params params page) ''start'' = Some (PInt (25 * int page)) \<and>
   (driver_start ienv = None \<longrightarrow>
    visited (snd (scrape_indeed_jobs ienv iparams b)) =
      visited b @ listing_url (indeed_filters iparams) 0 #
        (case navigate ienv (tick b) (listing_url (indeed_filters iparams) 0) of
           Inl e \<Rightarrow> []
         | Inr soup \<Rightarrow>
             (case perform ienv (tick b + 1) of
                Some e \<Rightarrow> []
              | None \<Rightarrow> map card_url (job_cards soup))))"
proof (intro conjI impI)
  assume a: "\<forall>q<nat (pages params).
       page_reads (reply env (length (sent w) + q) search_url (request_params params q))"
  from scrape_linkedin_jobs_all_read(1)[OF a]
  show "search_requests (snd (scrape_linkedin_jobs env params w)) =
      search_requests w @ map (search_request params) [0..<nat (pages params)]" .
  from scrape_linkedin_jobs_all_read(2)[OF a]
  show "\<exists>resp. fst (scrape_linkedin_jobs env params w) = Inr resp" .
next
  assume b: "p < nat (pages params') \<and>
    (\<forall>q<p. page_reads (reply env' (length (sent w') + q) search_url (request_params params' q))) \<and>
    \<not> page_reads (reply env' (length (sent w') + p) search_url (request_params params' p))"
  then have b1: "p < nat (pages params')"
    and b2: "\<forall>q<p. page_reads (reply env' (length (sent w') + q) search_url
                                   (request_params params' q))"
    and b3: "\<not> page_reads (reply env' (length (sent w') + p) search_url
                               (request_params params' p))"
    by blast+
  from scrape_linkedin_jobs_first_not_read(1)[OF b1 b2 b3]
  show "sent (snd (scrape_linkedin_jobs env' params' w')) =
      sent w' @ map (search_request params') [0..<Suc p]" .
  from scrape_linkedin_jobs_first_not_read(2)[OF b1 b2 b3]
  show "\<exists>e. fst (scrape_linkedin_jobs env' params' w') =
       Inl (HTTPException 500
              (Prefixed ''LinkedIn scraping failed: '' (HTTPException 500 (StrOf e))))" .
next
  show "search_request params page =
     (''https://www.linkedin.com/jobs-guest/jobs/api/seeMoreJobPostings/search'',
      request_params params page)"
    by (simp add: search_request_def search_url_def)
  show "dict_get (request_params params page) ''start'' = Some (PInt (25 * int page))"
    by (simp add: request_params_def params_dict_def dict_get_def)
next
  assume "driver_start ienv = None"
  then show "visited (snd (scrape_indeed_jobs ienv iparams b)) =
      visited b @ listing_url (indeed_filters iparams) 0 #
        (case navigate ienv (tick b) (listing_url (indeed_filters iparams) 0) of
           Inl e \<Rightarrow> []
         | Inr soup \<Rightarrow>
             (case perform ienv (tick b + 1) of
                Some e \<Rightarrow> []
              | None \<Rightarrow> map card_url (job_cards soup)))"
    by (rule scrape_indeed_jobs_visited)
qed

theorem search_pages_requested_while_read_indeed_one_witness:
  "search_requests (snd (scrape_linkedin_jobs scenario_b two_pages world0)) =
     [search_request two_pages 0, search_request two_pages 1] \<and>
   sent (snd (scrape_linkedin_jobs cardless_board two_pages world0)) =
     [search_request two_pages 0] \<and>
   visited (snd (scrape_indeed_jobs (site [unlinked_card, linked_card ''abc'' ''Dev''] pune_page)
                   (IndeedSearchParams ''Data Scientist'') browser0)) =
     [listing_url (indeed_filters (IndeedSearchParams ''Data Scientist'')) 0, [],
      ''https://in.indeed.com/viewjob?jk=abc'']"
proof -
  have n: "nat (pages two_pages) = 2"
    by (simp add: two_pages_def)
  have h1: "\<forall>q<nat (pages two_pages).
       page_reads (reply scenario_b (length (sent world0) + q) search_url
                     (request_params two_pages q))"
    by (simp add: page_reads_def scenario_b_def board_defs list_all_iff)
  have h2: "0 < nat (pages two_pages) \<and>
    (\<forall>q<0. page_reads (reply cardless_board (length (sent world0) + q) search_url
                         (request_params two_pages q))) \<and>
    \<not> page_reads (reply cardless_board (length (sent world0) + 0) search_url
                     (request_params two_pages 0))"
    by (simp add: n page_reads_def cardless_board_def network_def empty_soup_def)
  have h3: "driver_start (site [unlinked_card, linked_card ''abc'' ''Dev''] pune_page) = None"
    by (simp add: site_def)
  note t = search_pages_requested_while_read_indeed_one
             [of two_pages scenario_b world0 0 two_pages cardless_board world0 0
                 "site [unlinked_card, linked_card ''abc'' ''Dev''] pune_page"
                 "IndeedSearchParams ''Data Scientist''" browser0]
  from t[THEN conjunct1, THEN mp, OF h1]
  have c1: "search_requests (snd (scrape_linkedin_jobs scenario_b two_pages world0)) =
     [search_request two_pages 0, search_request two_pages 1]"
    by (simp add: n search_requests_def world0_def eval_nat_numeral)
  from t[THEN conjunct2, THEN conjunct1, THEN mp, OF h2]
  have c2: "sent (snd (scrape_linkedin_jobs cardless_board two_pages world0)) =
     [search_request two_pages 0]"
    by (simp add: world0_def)
  from t[THEN conjunct2, THEN conjunct2, THEN conjunct2, THEN conjunct2, THEN mp, OF h3]
  have c3: "visited (snd (scrape_indeed_jobs (site [unlinked_card, linked_card ''abc'' ''Dev''] pune_page)
                   (IndeedSearchParams ''Data Scientist'') browser0)) =
     [listing_url (indeed_filters (IndeedSearchParams ''Data Scientist'')) 0, [],
      ''https://in.indeed.com/viewjob?jk=abc'']"
    by (simp add: site_def browser0_def blank_page_def card_url_def link_fields_def
          unlinked_card_def linked_card_def str_value_def details_template_def attr_get_def
          Let_def)
  from c1 c2 c3 show ?thesis by blast
qed

subsection \<open>The value returned by a run\<close>


















lemmas pune_defs =
  get_job_details_def driver_get_def link_fields_def str_value_def details_template_def
  page_assignments_def meta_content_def location_of_def job_snippet_of_def salary_of_def
  options_found_def job_type_options_def shift_options_def benefits_of_def apply_link_of_def
  find_string_def attr_get_def attr_index_def py_split_def rupee_def ascii_strip_def
  is_space_def pune_page_def no_tag_def Let_def






subsection \<open>The dictionary of \<^verbatim>\<open>get_job_details\<close>\<close>

lemma map_of_dict_set: "map_of (dict_set k v d) = (map_of d)(k \<mapsto> v)"
  by (induction d) auto

lemma dict_get_dict_set: "dict_get (dict_set k v d) k' = (if k' = k then Some v else dict_get d k')"
  by (simp add: dict_get_def map_of_dict_set)

lemma dict_keys_dict_set:
  "k \<in> set (dict_keys d) \<Longrightarrow> dict_keys (dict_set k v d) = dict_keys d"
  by (induction d) (auto simp: dict_keys_def)

lemma dict_keys_dict_set_set: "set (dict_keys (dict_set k v d)) = insert k (set (dict_keys d))"
  by (induction d) (auto simp: dict_keys_def)

lemma dict_set_distinct: "distinct (dict_keys d) \<Longrightarrow> distinct (dict_keys (dict_set k v d))"
proof (induction d)
  case Nil
  show ?case by (simp add: dict_keys_def)
next
  case (Cons p d)
  with dict_keys_dict_set_set[of k v d] show ?case by (auto simp: dict_keys_def)
qed

lemma dict_update_distinct: "distinct (dict_keys d) \<Longrightarrow> distinct (dict_keys (dict_update d kvs))"
  by (induction d kvs rule: dict_update.induct) (auto simp: dict_set_distinct)

lemma dict_update_get_other:
  "k \<notin> fst ` set kvs \<Longrightarrow> dict_get (dict_update d kvs) k = dict_get d k"
  by (induction d kvs rule: dict_update.induct) (auto simp: dict_get_dict_set)

lemma dict_keys_dict_update_set:
  "set (dict_keys (dict_update d kvs)) = set (dict_keys d) \<union> fst ` set kvs"
  by (induction d kvs rule: dict_update.induct) (auto simp: dict_keys_dict_set_set)

lemma dict_get_None_iff: "dict_get d k = None \<longleftrightarrow> k \<notin> set (dict_keys d)"
  by (simp add: dict_get_def dict_keys_def map_of_eq_None_iff)

lemma assign_until_raise_keys:
  "set (map fst as) \<subseteq> set (dict_keys d) \<Longrightarrow> dict_keys (assign_until_raise as d) = dict_keys d"
  by (induction as d rule: assign_until_raise.induct) (auto simp: dict_keys_dict_set)

lemma assign_until_raise_other:
  "k \<notin> fst ` set as \<Longrightarrow> dict_get (assign_until_raise as d) k = dict_get d k"
  by (induction as d rule: assign_until_raise.induct) (auto simp: dict_get_dict_set)

text \<open>
  The value of an assigned key after the assignments: the value its line computes when
  no line up to its own raises, and the value it had before otherwise.
\<close>

lemma assign_until_raise_nth:
  "distinct (map fst as) \<Longrightarrow> i < length as \<Longrightarrow>
   dict_get (assign_until_raise as d) (fst (as ! i)) =
     (if runs_through i as then Some (projr (snd (as ! i))) else dict_get d (fst (as ! i)))"
proof (induction as d arbitrary: i rule: assign_until_raise.induct)
  case (1 details)
  then show ?case by simp
next
  case (2 k e rest details)
  then show ?case by (simp add: runs_through_def)
next
  case (3 k v rest details)
  then have dist: "distinct (map fst rest)" and notin: "k \<notin> fst ` set rest" by auto
  show ?case
  proof (cases i)
    case 0
    then show ?thesis
      using assign_until_raise_other[OF notin, of "dict_set k v details"]
      by (simp add: runs_through_def dict_get_dict_set)
  next
    case (Suc j)
    with 3(3) have j: "j < length rest" by simp
    then have "fst (rest ! j) \<in> fst ` set rest" by simp
    with notin have ne: "fst (rest ! j) \<noteq> k" by auto
    from 3(1)[OF dist j] ne Suc show ?thesis
      by (simp add: runs_through_def dict_get_dict_set)
  qed
qed

lemma link_fields_keys: "dict_keys (link_fields job_card details_template) = dict_keys details_template"
  by (simp add: link_fields_def Let_def details_template_def dict_keys_def split: option.splits)

lemma link_fields_page_keys:
  "k \<in> set page_keys \<Longrightarrow>
   dict_get (link_fields job_card details_template) k = dict_get details_template k"
  by (auto simp: link_fields_def Let_def dict_get_dict_set page_keys_def split: option.splits)

lemma link_fields_card_fields: "card_fields job_card (link_fields job_card details_template)"
  by (cases "title_link job_card")
     (simp_all add: card_fields_def link_fields_def Let_def details_template_def dict_get_def
        str_value_def)

lemma page_assignments_keys: "map fst (page_assignments strip soup) = page_keys"
  by (simp add: page_assignments_def page_keys_def)

lemma get_job_details_keys:
  "dict_keys (fst (get_job_details env job_card b)) = dict_keys details_template"
proof -
  have "set page_keys \<subseteq> set (dict_keys (link_fields job_card details_template))"
    unfolding link_fields_keys by (simp add: page_keys_def details_template_def dict_keys_def)
  then show ?thesis
    by (simp add: get_job_details_def Let_def driver_get_def assign_until_raise_keys
          page_assignments_keys link_fields_keys split: sum.splits)
qed

lemma get_job_details_other_keys:
  assumes "k \<notin> set page_keys"
  shows "dict_get (fst (get_job_details env c b)) k = dict_get (link_fields c details_template) k"
proof -
  have "\<And>soup. k \<notin> fst ` set (page_assignments (str_strip env) soup)"
    using assms page_assignments_keys by (metis list.set_map)
  with assign_until_raise_other show ?thesis
    by (simp add: get_job_details_def Let_def driver_get_def split: sum.splits)
qed

lemma get_job_details_card_fields: "card_fields job_card (fst (get_job_details env job_card b))"
proof -
  have n: "''job_id'' \<notin> set page_keys" "''job_url'' \<notin> set page_keys" "''title'' \<notin> set page_keys"
    by (simp_all add: page_keys_def)
  show ?thesis
    using link_fields_card_fields[of job_card]
    by (simp add: card_fields_def get_job_details_other_keys[OF n(1)]
          get_job_details_other_keys[OF n(2)] get_job_details_other_keys[OF n(3)]
        split: option.splits)
qed

lemma get_job_details_untouched:
  "dict_get (fst (get_job_details env job_card b)) ''posted'' = Some (PStr [])"
  "dict_get (fst (get_job_details env job_card b)) ''company_rating'' = Some (PStr [])"
  "dict_get (fst (get_job_details env job_card b)) ''is_urgent'' = Some (PBool False)"
  "dict_get (fst (get_job_details env job_card b)) ''experience_level'' = Some (PStr [])"
  "dict_get (fst (get_job_details env job_card b)) ''work_model'' = Some (PStr ''On-site'')"
proof -
  have l: "\<And>k. k \<notin> set [''job_id'', ''job_url'', ''title''] \<Longrightarrow>
             dict_get (link_fields job_card details_template) k = dict_get details_template k"
    by (auto simp: link_fields_def Let_def dict_get_dict_set split: option.splits)
  have n: "''posted'' \<notin> set page_keys" "''company_rating'' \<notin> set page_keys"
    "''is_urgent'' \<notin> set page_keys" "''experience_level'' \<notin> set page_keys"
    "''work_model'' \<notin> set page_keys"
    by (simp_all add: page_keys_def)
  show "dict_get (fst (get_job_details env job_card b)) ''posted'' = Some (PStr [])"
    by (simp add: get_job_details_other_keys[OF n(1)] l) (simp add: details_template_def dict_get_def)
  show "dict_get (fst (get_job_details env job_card b)) ''company_rating'' = Some (PStr [])"
    by (simp add: get_job_details_other_keys[OF n(2)] l) (simp add: details_template_def dict_get_def)
  show "dict_get (fst (get_job_details env job_card b)) ''is_urgent'' = Some (PBool False)"
    by (simp add: get_job_details_other_keys[OF n(3)] l) (simp add: details_template_def dict_get_def)
  show "dict_get (fst (get_job_details env job_card b)) ''experience_level'' = Some (PStr [])"
    by (simp add: get_job_details_other_keys[OF n(4)] l) (simp add: details_template_def dict_get_def)
  show "dict_get (fst (get_job_details env job_card b)) ''work_model'' = Some (PStr ''On-site'')"
    by (simp add: get_job_details_other_keys[OF n(5)] l) (simp add: details_template_def dict_get_def)
qed

lemma get_job_details_not_reached:
  "navigate env (tick b) (card_url job_card) = Inl e \<Longrightarrow>
   fst (get_job_details env job_card b) = link_fields job_card details_template"
  by (simp add: get_job_details_def Let_def driver_get_def card_url_def)

lemma get_job_details_page_key:
  assumes "navigate env (tick b) (card_url job_card) = Inr page" and "i < length page_keys"
  shows "dict_get (fst (get_job_details env job_card b)) (page_keys ! i) =
     (if runs_through i (page_assignments (str_strip env) page)
      then Some (projr (snd (page_assignments (str_strip env) page ! i)))
      else dict_get details_template (page_keys ! i))"
proof -
  let ?as = "page_assignments (str_strip env) page"
  have d: "distinct (map fst ?as)"
    by (simp add: page_assignments_keys page_keys_def)
  have len: "i < length ?as"
    using assms(2) page_assignments_keys[of "str_strip env" page] by (metis length_map)
  have k: "fst (?as ! i) = page_keys ! i"
    using len page_assignments_keys[of "str_strip env" page] by (metis nth_map)
  have m: "page_keys ! i \<in> set page_keys" using assms(2) by simp
  have g: "fst (get_job_details env job_card b) =
             assign_until_raise ?as (link_fields job_card details_template)"
    using assms(1) by (simp add: get_job_details_def Let_def driver_get_def card_url_def)
  show ?thesis
    using assign_until_raise_nth[OF d len, of "link_fields job_card details_template"]
    unfolding g k link_fields_page_keys[OF m] .
qed

lemmas page_field_defs =
  page_assignments_def meta_content_def location_of_def job_snippet_of_def salary_of_def
  options_found_def benefits_of_def apply_link_of_def find_string_def job_type_options_def
  shift_options_def attr_index_def

lemma get_job_details_nothing_matches:
  assumes "navigate env (tick b) (card_url job_card) = Inr soup" and "nothing_matches soup"
  shows "fst (get_job_details env job_card b) =
     dict_update (link_fields job_card details_template)
       [(''company'', PNone), (''location'', PNone), (''image_link'', PNone),
        (''is_remote'', PBool False), (''job_snippet'', PStr ''Not Provided''),
        (''salary'', PStr ''Not mentioned''), (''job_type'', PStr ''Not mentioned''),
        (''shift'', PStr ''Not mentioned''), (''benefits'', PStr ''Not mentioned''),
        (''apply_link'', PStr ''Not found'')]"
  using assms
  by (simp add: get_job_details_def Let_def driver_get_def card_url_def nothing_matches_def
        page_field_defs)

lemma untitled_page_record:
  "fst (get_job_details (site [] untitled_page) (linked_card ''abc'' ''Dev'')
          (browser0\<lparr>tick := 1\<rparr>)) = untitled_record"
  by (simp add: site_def linked_card_def untitled_record_def untitled_page_def browser0_def
        pune_defs)

lemma blank_page_record:
  "fst (get_job_details (site [] blank_page) (linked_card ''abc'' ''Dev'')
          (browser0\<lparr>tick := 1\<rparr>)) = unmatched_record"
  by (simp add: site_def linked_card_def unmatched_record_def blank_page_def browser0_def
        pune_defs)

text \<open>
  Claim C10, as stated, fails in its last part: a field whose extraction ran and did not
  match is bound to the value of the \<^verbatim>\<open>else\<close> branch of its line, which is not the
  template default. On a detail page where nothing matches, \<^verbatim>\<open>company\<close> is \<^verbatim>\<open>None\<close> and
  \<^verbatim>\<open>salary\<close> is \<^verbatim>\<open>"Not mentioned"\<close>, the template having the empty string for both.
\<close>

theorem unmatched_field_keeps_default_counterexample:
  "nothing_matches blank_page \<and>
   navigate (site [] blank_page) (tick (browser0\<lparr>tick := 1\<rparr>))
     (card_url (linked_card ''abc'' ''Dev'')) = Inr blank_page \<and>
   dict_get details_template ''company'' = Some (PStr '''') \<and>
   dict_get (fst (get_job_details (site [] blank_page) (linked_card ''abc'' ''Dev'')
                    (browser0\<lparr>tick := 1\<rparr>))) ''company'' = Some PNone \<and>
   dict_get details_template ''salary'' = Some (PStr '''') \<and>
   dict_get (fst (get_job_details (site [] blank_page) (linked_card ''abc'' ''Dev'')
                    (browser0\<lparr>tick := 1\<rparr>))) ''salary'' = Some (PStr ''Not mentioned'')"
  unfolding blank_page_record
  by (simp add: nothing_matches_def blank_page_def site_def browser0_def dict_get_def
        details_template_def unmatched_record_def)

text \<open>
  Claim C10, amended. For every job card, browser and page, \<^verbatim>\<open>get_job_details\<close> returns
  (it has no raising path) a dictionary with exactly the eighteen keys of the template,
  in the template's order. \<^verbatim>\<open>job_id\<close>, \<^verbatim>\<open>job_url\<close> and \<^verbatim>\<open>title\<close> are read from the title link
  of the card and are the empty string when the card has none; \<^verbatim>\<open>posted\<close>,
  \<^verbatim>\<open>company_rating\<close>, \<^verbatim>\<open>is_urgent\<close>, \<^verbatim>\<open>experience_level\<close> and \<^verbatim>\<open>work_model\<close> always keep their
  template default. When \<^verbatim>\<open>driver.get\<close> raises, the ten keys assigned from the detail page
  keep their template default. When the page loads, each of these ten keys is bound to
  the value its own line computes on the page if no line up to its own raises, and keeps
  its template default otherwise (an earlier line, or its own, raised). A line that runs
  without a match computes the value of its \<^verbatim>\<open>else\<close> branch, not the template default: on
  a page where nothing matches, \<^verbatim>\<open>None\<close> for \<^verbatim>\<open>company\<close>, \<^verbatim>\<open>location\<close> and \<^verbatim>\<open>image_link\<close>,
  \<^verbatim>\<open>False\<close> for \<^verbatim>\<open>is_remote\<close>, \<^verbatim>\<open>"Not Provided"\<close> for \<^verbatim>\<open>job_snippet\<close>, \<^verbatim>\<open>"Not mentioned"\<close> for
  \<^verbatim>\<open>salary\<close>, \<^verbatim>\<open>job_type\<close>, \<^verbatim>\<open>shift\<close> and \<^verbatim>\<open>benefits\<close>, \<^verbatim>\<open>"Not found"\<close> for \<^verbatim>\<open>apply_link\<close>.
\<close>

theorem get_job_details_total_every_key_determined:
  "dict_keys (fst (get_job_details env job_card b)) =
     [''job_id'', ''title'', ''company'', ''location'', ''salary'', ''posted'', ''job_url'',
      ''company_rating'', ''job_type'', ''shift'', ''benefits'', ''is_remote'', ''is_urgent'',
      ''job_snippet'', ''experience_level'', ''work_model'', ''image_link'', ''apply_link''] \<and>
   card_fields job_card (fst (get_job_details env job_card b)) \<and>
   dict_get (fst (get_job_details env job_card b)) ''posted'' = Some (PStr '''') \<and>
   dict_get (fst (get_job_details env job_card b)) ''company_rating'' = Some (PStr '''') \<and>
   dict_get (fst (get_job_details env job_card b)) ''is_urgent'' = Some (PBool False) \<and>
   dict_get (fst (get_job_details env job_card b)) ''experience_level'' = Some (PStr '''') \<and>
   dict_get (fst (get_job_details env job_card b)) ''work_model'' = Some (PStr ''On-site'') \<and>
   (navigate env (tick b) (card_url job_card) = Inl e \<longrightarrow>
      fst (get_job_details env job_card b) = link_fields job_card details_template) \<and>
   (navigate env (tick b) (card_url job_card) = Inr page \<and> i < length page_keys \<longrightarrow>
      dict_get (fst (get_job_details env job_card b)) (page_keys ! i) =
        (if runs_through i (page_assignments (str_strip env) page)
         then Some (projr (snd (page_assignments (str_strip env) page ! i)))
         else dict_get details_template (page_keys ! i))) \<and>
   (navigate env (tick b) (card_url job_card) = Inr page \<and> nothing_matches page \<longrightarrow>
      fst (get_job_details env job_card b) =
        dict_update (link_fields job_card details_template)
          [(''company'', PNone), (''location'', PNone), (''image_link'', PNone),
           (''is_remote'', PBool False), (''job_snippet'', PStr ''Not Provided''),
           (''salary'', PStr ''Not mentioned''), (''job_type'', PStr ''Not mentioned''),
           (''shift'', PStr ''Not mentioned''), (''benefits'', PStr ''Not mentioned''),
           (''apply_link'', PStr ''Not found'')])"
proof -
  have keys: "dict_keys details_template =
     [''job_id'', ''title'', ''company'', ''location'', ''salary'', ''posted'', ''job_url'',
      ''company_rating'', ''job_type'', ''shift'', ''benefits'', ''is_remote'', ''is_urgent'',
      ''job_snippet'', ''experience_level'', ''work_model'', ''image_link'', ''apply_link'']"
    by (simp add: details_template_def dict_keys_def)
  show ?thesis
    using get_job_details_keys[of env job_card b] keys
          get_job_details_card_fields[of job_card env b]
          get_job_details_untouched[of env job_card b]
          get_job_details_not_reached[of env b job_card e]
          get_job_details_page_key[of env b job_card page i]
          get_job_details_nothing_matches[of env b job_card page]
    by (simp only:) blast
qed

theorem get_job_details_total_every_key_determined_witness:
  "fst (get_job_details (site [] untitled_page) (linked_card ''abc'' ''Dev'')
          (browser0\<lparr>tick := 1\<rparr>)) = untitled_record \<and>
   dict_get (fst (get_job_details (site [] untitled_page) (linked_card ''abc'' ''Dev'')
                    (browser0\<lparr>tick := 1\<rparr>))) ''company'' = Some (PStr ''Acme'') \<and>
   dict_get (fst (get_job_details (site [] untitled_page) (linked_card ''abc'' ''Dev'')
                    (browser0\<lparr>tick := 1\<rparr>))) ''location'' = Some (PStr '''') \<and>
   dict_get (fst (get_job_details (site [] untitled_page) (linked_card ''abc'' ''Dev'')
                    (browser0\<lparr>tick := 1\<rparr>))) ''apply_link'' = Some (PStr '''') \<and>
   fst (get_job_details blocked_browser unlinked_card browser0) = details_template \<and>
   fst (get_job_details (site [] blank_page) (linked_card ''abc'' ''Dev'')
          (browser0\<lparr>tick := 1\<rparr>)) = unmatched_record"
proof -
  let ?c = "linked_card ''abc'' ''Dev''"
  let ?b = "browser0\<lparr>tick := 1\<rparr>"
  let ?e = "LibraryError ''net::ERR_CONNECTION_RESET''"
  have n: "navigate (site [] untitled_page) (tick ?b) (card_url ?c) = Inr untitled_page"
    by (simp add: site_def browser0_def)
  have k: "page_keys ! 0 = ''company''" "page_keys ! 1 = ''location''"
    "page_keys ! 9 = ''apply_link''" "length page_keys = 10"
    by (simp_all add: page_keys_def)
  have r0: "runs_through 0 (page_assignments (str_strip (site [] untitled_page)) untitled_page)"
    and r1: "\<not> runs_through 1 (page_assignments (str_strip (site [] untitled_page)) untitled_page)"
    and r9: "\<not> runs_through 9 (page_assignments (str_strip (site [] untitled_page)) untitled_page)"
    and v0: "snd (page_assignments (str_strip (site [] untitled_page)) untitled_page ! 0) =
               Inr (PStr ''Acme'')"
    by (simp_all add: runs_through_def page_assignments_def meta_content_def location_of_def
          untitled_page_def pune_page_def no_tag_def attr_index_def py_split_def
          eval_nat_numeral)
  have d: "dict_get details_template ''location'' = Some (PStr '''')"
    "dict_get details_template ''apply_link'' = Some (PStr '''')"
    by (simp_all add: details_template_def dict_get_def)
  note t = get_job_details_total_every_key_determined
  have c0: "dict_get (fst (get_job_details (site [] untitled_page) ?c ?b)) ''company'' =
              Some (PStr ''Acme'')"
    using t[of "site [] untitled_page" ?c ?b ?e untitled_page 0] n k r0 v0 by simp
  have c1: "dict_get (fst (get_job_details (site [] untitled_page) ?c ?b)) ''location'' =
              Some (PStr '''')"
    using t[of "site [] untitled_page" ?c ?b ?e untitled_page 1] n k r1 d by simp
  have c9: "dict_get (fst (get_job_details (site [] untitled_page) ?c ?b)) ''apply_link'' =
              Some (PStr '''')"
    using t[of "site [] untitled_page" ?c ?b ?e untitled_page 9] n k r9 d by simp
  have "navigate blocked_browser (tick browser0) (card_url unlinked_card) = Inl ?e"
    by (simp add: blocked_browser_def)
  with t[of blocked_browser unlinked_card browser0 ?e blank_page 0]
  have c2: "fst (get_job_details blocked_browser unlinked_card browser0) = details_template"
    by (simp add: link_fields_def unlinked_card_def)
  have "navigate (site [] blank_page) (tick ?b) (card_url ?c) = Inr blank_page \<and>
        nothing_matches blank_page"
    by (simp add: site_def browser0_def nothing_matches_def blank_page_def)
  with t[of "site [] blank_page" ?c ?b ?e blank_page 0]
  have c3: "fst (get_job_details (site [] blank_page) ?c ?b) = unmatched_record"
    by (simp add: link_fields_def linked_card_def Let_def attr_get_def str_value_def
          details_template_def unmatched_record_def)
  from untitled_page_record c0 c1 c9 c2 c3 show ?thesis by simp
qed

subsection \<open>Isolation of the fields\<close>

lemma assign_until_raise_all:
  "list_all (\<lambda>(k, x). \<not> isl x) as \<Longrightarrow>
   assign_until_raise as d = dict_update d (map (\<lambda>(k, x). (k, projr x)) as)"
  by (induction as d rule: assign_until_raise.induct) auto

text \<open>\<^verbatim>\<open>d.update(other)\<close>: the keys of \<^verbatim>\<open>other\<close> take its values, the other keys keep theirs.\<close>

lemma dict_update_get:
  "distinct (map fst kvs) \<Longrightarrow>
   dict_get (dict_update d kvs) k =
     (case map_of kvs k of Some v \<Rightarrow> Some v | None \<Rightarrow> dict_get d k)"
proof (induction d kvs rule: dict_update.induct)
  case (1 d)
  then show ?case by simp
next
  case (2 d k' v' kvs)
  then have dist: "distinct (map fst kvs)" and notin: "k' \<notin> fst ` set kvs" by auto
  from notin have m: "map_of kvs k' = None" by (simp add: map_of_eq_None_iff)
  from 2(1)[OF dist] m show ?case
    by (auto simp: dict_get_dict_set split: option.splits)
qed

lemma criteria_loop_distinct:
  "distinct (dict_keys acc) \<Longrightarrow> distinct (dict_keys (criteria_loop lower items acc))"
  by (induction items arbitrary: acc) (auto simp: dict_set_distinct split: sum.splits)

lemma get_job_criteria_distinct: "distinct (map fst (get_job_criteria lower soup))"
  using criteria_loop_distinct[of "[]" lower "job_criteria_items soup"]
  by (simp add: get_job_criteria_def dict_keys_def)

lemma with_description_get:
  "dict_get (with_description soup d) k =
     (case description_markup soup of
        None \<Rightarrow> dict_get d k
      | Some ps \<Rightarrow> if k = ''description'' then Some (PStr (py_join [CHR 0x0A] ps))
                   else dict_get d k)"
  by (simp add: with_description_def dict_get_dict_set split: option.splits)

lemma detail_attempt_field:
  assumes "reply env n (detail_url job_id) [] = Inr response"
    and "status_code response = 200"
    and "company_url_of (body response) = Inr company_url"
  shows "\<exists>r. detail_attempt env job_id n = Some r \<and>
     dict_get r k =
       (case dict_get (get_job_criteria (str_lower env) (body response)) k of
          Some v \<Rightarrow> Some v
        | None \<Rightarrow>
            (case description_markup (body response) of
               None \<Rightarrow>
                 dict_get
                   [(''job_id'', PStr job_id),
                    (''title'', text_or_none (top_card_title (body response))),
                    (''company'', text_or_none (org_name_link (body response))),
                    (''location'', text_or_none (flavor_bullet (body response))),
                    (''posted'', text_or_none (posted_time_ago (body response))),
                    (''applicants'', text_or_none (num_applicants (body response))),
                    (''url'', PStr (''https://www.linkedin.com/jobs/view/'' @ job_id)),
                    (''company_url'', company_url)] k
             | Some ps \<Rightarrow>
                 if k = ''description'' then Some (PStr (py_join [CHR 0x0A] ps))
                 else dict_get
                   [(''job_id'', PStr job_id),
                    (''title'', text_or_none (top_card_title (body response))),
                    (''company'', text_or_none (org_name_link (body response))),
                    (''location'', text_or_none (flavor_bullet (body response))),
                    (''posted'', text_or_none (posted_time_ago (body response))),
                    (''applicants'', text_or_none (num_applicants (body response))),
                    (''url'', PStr (''https://www.linkedin.com/jobs/view/'' @ job_id)),
                    (''company_url'', company_url)] k))"
  unfolding detail_attempt_record[OF assms]
  by (simp only: option.inject ex_simps simp_thms
        dict_update_get[OF get_job_criteria_distinct] with_description_get
        dict_get_def[of "get_job_criteria (str_lower env) (body response)"])

lemma get_job_details_no_raise_value:
  assumes "navigate env (tick b) (card_url job_card) = Inr page"
    and "no_line_raises (str_strip env) page"
    and "map_of (page_assignments (str_strip env) page) k = Some (Inr v)"
  shows "dict_get (fst (get_job_details env job_card b)) k = Some v"
proof -
  let ?kvs = "map (\<lambda>(k, x). (k, projr x)) (page_assignments (str_strip env) page)"
  have r: "fst (get_job_details env job_card b) =
             dict_update (link_fields job_card details_template) ?kvs"
    using assms(1) assign_until_raise_all[OF assms(2)[unfolded no_line_raises_def]]
    by (simp add: get_job_details_def Let_def driver_get_def card_url_def)
  have "map fst ?kvs = page_keys"
    using page_assignments_keys[of "str_strip env" page] by (simp add: comp_def case_prod_unfold)
  then have d: "distinct (map fst ?kvs)" by (simp add: page_keys_def)
  have "(k, Inr v) \<in> set (page_assignments (str_strip env) page)"
    using assms(3) by (rule map_of_SomeD)
  then have "(k, v) \<in> set ?kvs" by force
  with d have "map_of ?kvs k = Some v" by (rule map_of_is_SomeI)
  with dict_update_get[OF d, of "link_fields job_card details_template" k] show ?thesis
    by (simp add: r)
qed

lemma missing_locator_values:
  "og_description page = None \<Longrightarrow>
     map_of (page_assignments strip page) ''company'' = Some (Inr PNone)"
  "title_tag page = None \<Longrightarrow>
     map_of (page_assignments strip page) ''location'' = Some (Inr PNone)"
  "og_image page = None \<Longrightarrow>
     map_of (page_assignments strip page) ''image_link'' = Some (Inr PNone)"
  "remote_badge page = None \<Longrightarrow>
     map_of (page_assignments strip page) ''is_remote'' = Some (Inr (PBool False))"
  "job_description page = None \<Longrightarrow>
     map_of (page_assignments strip page) ''job_snippet'' = Some (Inr (PStr ''Not Provided''))"
  "og_url page = None \<Longrightarrow>
     map_of (page_assignments strip page) ''apply_link'' = Some (Inr (PStr ''Not found''))"
  "page_strings page = [] \<Longrightarrow>
     map_of (page_assignments strip page) ''salary'' = Some (Inr (PStr ''Not mentioned'')) \<and>
     map_of (page_assignments strip page) ''job_type'' = Some (Inr (PStr ''Not mentioned'')) \<and>
     map_of (page_assignments strip page) ''shift'' = Some (Inr (PStr ''Not mentioned'')) \<and>
     map_of (page_assignments strip page) ''benefits'' = Some (Inr (PStr ''Not mentioned''))"
  by (simp_all add: page_field_defs)

text \<open>
  Claim C1, as stated, fails. On Indeed every line runs inside one \<^verbatim>\<open>try\<close>: a title
  without \<^verbatim>\<open>" - "\<close> makes the \<^verbatim>\<open>location\<close> line raise \<^verbatim>\<open>IndexError\<close>, and the lines after it do
  not run, so \<^verbatim>\<open>apply_link\<close> keeps the empty string although the page has its \<^verbatim>\<open>og:url\<close>. On
  LinkedIn a company link without \<^verbatim>\<open>href\<close> makes the dictionary display raise, and the whole
  record is lost although the title is there. And on LinkedIn a field whose locator is
  missing need not be absent: on a page without the location tag, a job-criteria item
  headed \<^verbatim>\<open>Location\<close> fills \<^verbatim>\<open>location\<close>.
\<close>

theorem field_isolation_counterexample:
  "location_of untitled_page = Inl IndexError \<and>
   apply_link_of untitled_page = Inr (PStr ''https://in.indeed.com/viewjob?jk=abc'') \<and>
   dict_get (fst (get_job_details (site [] untitled_page) (linked_card ''abc'' ''Dev'')
                    (browser0\<lparr>tick := 1\<rparr>))) ''apply_link'' = Some (PStr '''') \<and>
   text_or_none (top_card_title hrefless_page) = PStr ''Software Engineer'' \<and>
   company_url_of hrefless_page = Inl (KeyError ''href'') \<and>
   fst (job_page_of_response ascii_lower ''1001''
          (Inr \<lparr>status_code = 200, body = hrefless_page\<rparr>)) = None \<and>
   flavor_bullet relocated_page = None \<and>
   fst (job_page_of_response ascii_lower ''1001''
          (Inr \<lparr>status_code = 200, body = relocated_page\<rparr>)) =
     Some [(''job_id'', PStr ''1001''), (''title'', PNone), (''company'', PNone),
           (''location'', PStr ''Remote''), (''posted'', PNone), (''applicants'', PNone),
           (''url'', PStr ''https://www.linkedin.com/jobs/view/1001''),
           (''company_url'', PNone)]"
proof (intro conjI)
  show "location_of untitled_page = Inl IndexError"
    by (simp add: location_of_def untitled_page_def pune_page_def no_tag_def py_split_def)
  show "apply_link_of untitled_page = Inr (PStr ''https://in.indeed.com/viewjob?jk=abc'')"
    by (simp add: apply_link_of_def untitled_page_def pune_page_def no_tag_def attr_index_def)
  show "dict_get (fst (get_job_details (site [] untitled_page) (linked_card ''abc'' ''Dev'')
                    (browser0\<lparr>tick := 1\<rparr>))) ''apply_link'' = Some (PStr '''')"
    unfolding untitled_page_record by (simp add: untitled_record_def dict_get_def)
  show "text_or_none (top_card_title hrefless_page) = PStr ''Software Engineer''"
    by (simp add: text_or_none_def hrefless_page_def empty_soup_def no_tag_def)
  show "company_url_of hrefless_page = Inl (KeyError ''href'')"
    by (simp add: company_url_of_def hrefless_page_def empty_soup_def no_tag_def attr_index_def)
  show "fst (job_page_of_response ascii_lower ''1001''
          (Inr \<lparr>status_code = 200, body = hrefless_page\<rparr>)) = None"
    by (simp add: linkedin_page_defs hrefless_page_def empty_soup_def no_tag_def)
  show "flavor_bullet relocated_page = None"
    by (simp add: relocated_page_def empty_soup_def)
  show "fst (job_page_of_response ascii_lower ''1001''
          (Inr \<lparr>status_code = 200, body = relocated_page\<rparr>)) =
     Some [(''job_id'', PStr ''1001''), (''title'', PNone), (''company'', PNone),
           (''location'', PStr ''Remote''), (''posted'', PNone), (''applicants'', PNone),
           (''url'', PStr ''https://www.linkedin.com/jobs/view/1001''),
           (''company_url'', PNone)]"
    by (simp add: linkedin_page_defs relocated_page_def empty_soup_def no_tag_def)
qed

text \<open>
  Claim C1, amended. On a detail document on which no extraction raises, the fields are
  extracted independently. On LinkedIn, when the page is fetched with status 200 and the
  company link (if any) has its \<^verbatim>\<open>href\<close>, the record is built, and each of its keys holds:
  the value of the job criteria when a criteria heading normalises to that key (the
  criteria are merged last and override); otherwise the joined description for
  \<^verbatim>\<open>description\<close> when the page has one; otherwise the value of its own entry of the
  display, which is the text of its own tag, or \<^verbatim>\<open>None\<close> when that tag is missing. On
  Indeed, when no line raises, every key read from the detail page holds the value its
  own line computes; a line whose locator is missing computes \<^verbatim>\<open>None\<close> or its sentinel and
  does not raise.
\<close>

theorem missing_locator_isolated_when_nothing_raises:
  "(reply env n (detail_url job_id) [] = Inr response \<and> status_code response = 200 \<and>
    company_url_of (body response) = Inr company_url \<longrightarrow>
      (\<exists>r. detail_attempt env job_id n = Some r \<and>
         dict_get r k =
           (case dict_get (get_job_criteria (str_lower env) (body response)) k of
              Some v \<Rightarrow> Some v
            | None \<Rightarrow>
                (case description_markup (body response) of
                   None \<Rightarrow>
                     dict_get
                       [(''job_id'', PStr job_id),
                        (''title'', text_or_none (top_card_title (body response))),
                        (''company'', text_or_none (org_name_link (body response))),
                        (''location'', text_or_none (flavor_bullet (body response))),
                        (''posted'', text_or_none (posted_time_ago (body response))),
                        (''applicants'', text_or_none (num_applicants (body response))),
                        (''url'', PStr (''https://www.linkedin.com/jobs/view/'' @ job_id)),
                        (''company_url'', company_url)] k
                 | Some ps \<Rightarrow>
                     if k = ''description'' then Some (PStr (py_join [CHR 0x0A] ps))
                     else dict_get
                       [(''job_id'', PStr job_id),
                        (''title'', text_or_none (top_card_title (body response))),
                        (''company'', text_or_none (org_name_link (body response))),
                        (''location'', text_or_none (flavor_bullet (body response))),
                        (''posted'', text_or_none (posted_time_ago (body response))),
                        (''applicants'', text_or_none (num_applicants (body response))),
                        (''url'', PStr (''https://www.linkedin.com/jobs/view/'' @ job_id)),
                        (''company_url'', company_url)] k)))) \<and>
   text_or_none None = PNone \<and>
   text_or_none (Some t) = PStr (tag_stripped t) \<and>
   (org_name_link soup = None \<longrightarrow> company_url_of soup = Inr PNone) \<and>
   (navigate ienv (tick b) (card_url job_card) = Inr page \<and>
    no_line_raises (str_strip ienv) page \<and>
    map_of (page_assignments (str_strip ienv) page) k' = Some (Inr v) \<longrightarrow>
      dict_get (fst (get_job_details ienv job_card b)) k' = Some v) \<and>
   (og_description page = None \<longrightarrow>
      map_of (page_assignments strip page) ''company'' = Some (Inr PNone)) \<and>
   (title_tag page = None \<longrightarrow>
      map_of (page_assignments strip page) ''location'' = Some (Inr PNone)) \<and>
   (og_image page = None \<longrightarrow>
      map_of (page_assignments strip page) ''image_link'' = Some (Inr PNone)) \<and>
   (remote_badge page = None \<longrightarrow>
      map_of (page_assignments strip page) ''is_remote'' = Some (Inr (PBool False))) \<and>
   (job_description page = None \<longrightarrow>
      map_of (page_assignments strip page) ''job_snippet'' = Some (Inr (PStr ''Not Provided''))) \<and>
   (og_url page = None \<longrightarrow>
      map_of (page_assignments strip page) ''apply_link'' = Some (Inr (PStr ''Not found''))) \<and>
   (page_strings page = [] \<longrightarrow>
      map_of (page_assignments strip page) ''salary'' = Some (Inr (PStr ''Not mentioned'')) \<and>
      map_of (page_assignments strip page) ''job_type'' = Some (Inr (PStr ''Not mentioned'')) \<and>
      map_of (page_assignments strip page) ''shift'' = Some (Inr (PStr ''Not mentioned'')) \<and>
      map_of (page_assignments strip page) ''benefits'' = Some (Inr (PStr ''Not mentioned'')))"
proof -
  have a: "text_or_none None = PNone" "text_or_none (Some t) = PStr (tag_stripped t)"
    by (simp_all add: text_or_none_def)
  have c: "org_name_link soup = None \<longrightarrow> company_url_of soup = Inr PNone"
    by (simp add: company_url_of_def)
  show ?thesis
    using detail_attempt_field[of env n job_id response company_url k] a c
          get_job_details_no_raise_value[of ienv b job_card page k' v]
          missing_locator_values[of page strip]
    by (simp only:) blast
qed

theorem missing_locator_isolated_when_nothing_raises_witness:
  "(\<exists>r. detail_attempt fails_once ''1001'' 1 = Some r \<and>
        dict_get r ''title'' = Some (PStr ''Software Engineer'')) \<and>
   (\<exists>r. detail_attempt fails_once ''1001'' 1 = Some r \<and> dict_get r ''location'' = Some PNone) \<and>
   (\<exists>r. detail_attempt fails_once ''1001'' 1 = Some r \<and>
        dict_get r ''seniority_level'' = Some (PStr ''Entry level'')) \<and>
   company_url_of relocated_page = Inr PNone \<and>
   dict_get (fst (get_job_details (site [] pune_page) (linked_card ''abc'' ''Dev'')
                    (browser0\<lparr>tick := 1\<rparr>))) ''location'' = Some (PStr ''Pune'') \<and>
   dict_get (fst (get_job_details (site [] pune_page) (linked_card ''abc'' ''Dev'')
                    (browser0\<lparr>tick := 1\<rparr>))) ''image_link'' = Some PNone \<and>
   dict_get (fst (get_job_details (site [] pune_page) (linked_card ''abc'' ''Dev'')
                    (browser0\<lparr>tick := 1\<rparr>))) ''apply_link'' =
     Some (PStr ''https://in.indeed.com/viewjob?jk=abc'') \<and>
   map_of (page_assignments ascii_strip blank_page) ''company'' = Some (Inr PNone) \<and>
   map_of (page_assignments ascii_strip blank_page) ''location'' = Some (Inr PNone) \<and>
   map_of (page_assignments ascii_strip blank_page) ''is_remote'' = Some (Inr (PBool False)) \<and>
   map_of (page_assignments ascii_strip blank_page) ''job_snippet'' =
     Some (Inr (PStr ''Not Provided'')) \<and>
   map_of (page_assignments ascii_strip blank_page) ''apply_link'' =
     Some (Inr (PStr ''Not found'')) \<and>
   map_of (page_assignments ascii_strip blank_page) ''salary'' =
     Some (Inr (PStr ''Not mentioned''))"
proof -
  let ?c = "linked_card ''abc'' ''Dev''"
  let ?b = "browser0\<lparr>tick := 1\<rparr>"
  let ?resp = "\<lparr>status_code = 200, body = acme_page\<rparr>"
  let ?cu = "PStr ''https://www.linkedin.com/company/acme''"
  note t = missing_locator_isolated_when_nothing_raises
  have h: "reply fails_once 1 (detail_url ''1001'') [] = Inr ?resp \<and> status_code ?resp = 200 \<and>
           company_url_of (body ?resp) = Inr ?cu"
    by (simp add: fails_once_def network_def company_url_of_def acme_page_def empty_soup_def
          no_tag_def attr_index_def)
  have cr: "get_job_criteria (str_lower fails_once) (body ?resp) =
              [(''seniority_level'', PStr ''Entry level'')]"
    by (simp add: fails_once_def network_def linkedin_page_defs acme_page_def empty_soup_def
          no_tag_def)
  have dm: "description_markup (body ?resp) = None"
    by (simp add: acme_page_def empty_soup_def)
  have tx: "text_or_none (top_card_title (body ?resp)) = PStr ''Software Engineer''"
    "text_or_none (flavor_bullet (body ?resp)) = PNone"
    by (simp_all add: text_or_none_def acme_page_def empty_soup_def no_tag_def)
  from t[of fails_once 1 "''1001''" ?resp ?cu "''title''", THEN conjunct1, THEN mp, OF h]
  have l1: "\<exists>r. detail_attempt fails_once ''1001'' 1 = Some r \<and>
        dict_get r ''title'' = Some (PStr ''Software Engineer'')"
    unfolding cr dm tx by (simp add: dict_get_def)
  from t[of fails_once 1 "''1001''" ?resp ?cu "''location''", THEN conjunct1, THEN mp, OF h]
  have l2: "\<exists>r. detail_attempt fails_once ''1001'' 1 = Some r \<and>
        dict_get r ''location'' = Some PNone"
    unfolding cr dm tx by (simp add: dict_get_def)
  from t[of fails_once 1 "''1001''" ?resp ?cu "''seniority_level''", THEN conjunct1, THEN mp, OF h]
  have l3: "\<exists>r. detail_attempt fails_once ''1001'' 1 = Some r \<and>
        dict_get r ''seniority_level'' = Some (PStr ''Entry level'')"
    unfolding cr dm tx by (simp add: dict_get_def)
  have "org_name_link relocated_page = None"
    by (simp add: relocated_page_def empty_soup_def)
  with t[of _ _ _ _ _ _ _ relocated_page]
  have l4: "company_url_of relocated_page = Inr PNone" by blast
  have n: "navigate (site [] pune_page) (tick ?b) (card_url ?c) = Inr pune_page"
    by (simp add: site_def browser0_def)
  have s: "str_strip (site [] pune_page) = ascii_strip"
    by (simp add: site_def)
  have nr: "no_line_raises ascii_strip pune_page"
    by (simp add: no_line_raises_def page_field_defs pune_page_def no_tag_def py_split_def
          rupee_def)
  have oi: "og_image pune_page = None"
    by (simp add: pune_page_def)
  have m1: "map_of (page_assignments ascii_strip pune_page) ''location'' = Some (Inr (PStr ''Pune''))"
    and m3: "map_of (page_assignments ascii_strip pune_page) ''apply_link'' =
               Some (Inr (PStr ''https://in.indeed.com/viewjob?jk=abc''))"
    by (simp_all add: page_field_defs pune_page_def no_tag_def py_split_def)
  note ti = t[of _ _ _ _ _ _ _ _ "site [] pune_page" ?b ?c pune_page _ _ ascii_strip]
  from ti have m2: "map_of (page_assignments ascii_strip pune_page) ''image_link'' = Some (Inr PNone)"
    using oi by blast
  from t[of _ _ _ _ _ _ _ _ "site [] pune_page" ?b ?c pune_page "''location''" "PStr ''Pune''"]
       n nr m1
  have i1: "dict_get (fst (get_job_details (site [] pune_page) ?c ?b)) ''location'' =
              Some (PStr ''Pune'')"
    unfolding s by blast
  from t[of _ _ _ _ _ _ _ _ "site [] pune_page" ?b ?c pune_page "''image_link''" PNone]
       n nr m2
  have i2: "dict_get (fst (get_job_details (site [] pune_page) ?c ?b)) ''image_link'' = Some PNone"
    unfolding s by blast
  from t[of _ _ _ _ _ _ _ _ "site [] pune_page" ?b ?c pune_page "''apply_link''"
           "PStr ''https://in.indeed.com/viewjob?jk=abc''"]
       n nr m3
  have i3: "dict_get (fst (get_job_details (site [] pune_page) ?c ?b)) ''apply_link'' =
              Some (PStr ''https://in.indeed.com/viewjob?jk=abc'')"
    unfolding s by blast
  have bl: "og_description blank_page = None" "title_tag blank_page = None"
    "remote_badge blank_page = None" "job_description blank_page = None"
    "og_url blank_page = None" "page_strings blank_page = []"
    by (simp_all add: blank_page_def)
  note tb = t[of _ _ _ _ _ _ _ _ _ _ _ blank_page _ _ ascii_strip]
  from tb bl have b1: "map_of (page_assignments ascii_strip blank_page) ''company'' = Some (Inr PNone)"
    by blast
  from tb bl have b2: "map_of (page_assignments ascii_strip blank_page) ''location'' = Some (Inr PNone)"
    by blast
  from tb bl have b3: "map_of (page_assignments ascii_strip blank_page) ''is_remote'' =
                         Some (Inr (PBool False))"
    by blast
  from tb bl have b4: "map_of (page_assignments ascii_strip blank_page) ''job_snippet'' =
                         Some (Inr (PStr ''Not Provided''))"
    by blast
  from tb bl have b5: "map_of (page_assignments ascii_strip blank_page) ''apply_link'' =
                         Some (Inr (PStr ''Not found''))"
    by blast
  from tb bl have b6: "map_of (page_assignments ascii_strip blank_page) ''salary'' =
                         Some (Inr (PStr ''Not mentioned''))"
    by blast
  from l1 l2 l3 l4 i1 i2 i3 b1 b2 b3 b4 b5 b6 show ?thesis by (intro conjI)
qed

end
